theory Spec2Isabelle
  imports Main
begin

section \<open>Python values and exceptions\<close>

text \<open>
  The values that flow through \<^verbatim>\<open>services/acservice/search.py\<close>: the leaves of a parsed
  filter (\<^verbatim>\<open>str\<close>, \<^verbatim>\<open>int\<close>, \<^verbatim>\<open>float\<close>), the nested \<^verbatim>\<open>pyparsing.ParseResults\<close> that hold
  them, the tuples that filter translation returns, and \<^verbatim>\<open>None\<close>. A finite float is the
  dyadic number \<open>m * 2 ^ e\<close>, kept as the pair \<open>m\<close>, \<open>e\<close>; the code never computes with it.
  Strings are byte strings.
\<close>

datatype pyval =
    PNone
  | PInt int
  | PFloat int int
  | PStr string
  | PTuple "pyval list"
  | PResults "pyval list"

text \<open>
  Exceptions are subclasses of \<^verbatim>\<open>Exception\<close>, given by their class and their \<^verbatim>\<open>args\<close>.
  An argument is a value, another exception, or the string built by
  \<^verbatim>\<open>template.format(arguments)\<close>, which is kept as the template with its arguments.
  A class other than the listed ones is \<open>OtherException\<close> with its name, and derives
  from none of the listed ones. The \<^verbatim>\<open>__context__\<close> that Python attaches to an exception
  raised inside an \<^verbatim>\<open>except\<close> clause is not part of the model.
\<close>

datatype exc_class =
    KeyError
  | IndexError
  | TypeError
  | ValueError
  | NotImplementedError
  | ParseException
  | ACException
  | ACFieldTranslateException
  | ACFilterParsingException
  | OtherException string

datatype pyobj =
    OVal pyval
  | OFmt string "pyobj list"
  | OExn exn
and exn = Exn (exn_class: exc_class) (exn_args: "pyobj list")

fun class_name :: "exc_class \<Rightarrow> string" where
  "class_name KeyError = ''KeyError''"
| "class_name IndexError = ''IndexError''"
| "class_name TypeError = ''TypeError''"
| "class_name ValueError = ''ValueError''"
| "class_name NotImplementedError = ''NotImplementedError''"
| "class_name ParseException = ''ParseException''"
| "class_name ACException = ''ACException''"
| "class_name ACFieldTranslateException = ''ACFieldTranslateException''"
| "class_name ACFilterParsingException = ''ACFilterParsingException''"
| "class_name (OtherException n) = n"

text \<open>
  Modelled from the spec: the module \<^verbatim>\<open>ac_mediator.exceptions\<close> that declares
  \<^verbatim>\<open>ACException\<close>, \<^verbatim>\<open>ACFieldTranslateException\<close> and \<^verbatim>\<open>ACFilterParsingException\<close> is missing.
  The spec lists the field and filter errors among the typed errors of the mediator;
  the clause \<^verbatim>\<open>except ACException\<close> is taken to catch the base class and these two.
\<close>

definition isinstance_ACException :: "exc_class \<Rightarrow> bool" where
  "isinstance_ACException c \<longleftrightarrow>
     c = ACException \<or> c = ACFieldTranslateException \<or> c = ACFilterParsingException"

fun type_name :: "pyval \<Rightarrow> string" where
  "type_name PNone = ''NoneType''"
| "type_name (PInt _) = ''int''"
| "type_name (PFloat _ _) = ''float''"
| "type_name (PStr _) = ''str''"
| "type_name (PTuple _) = ''tuple''"
| "type_name (PResults _) = ''ParseResults''"

subsection \<open>Built-in operations\<close>

text \<open>\<^verbatim>\<open>len(x)\<close>: a \<^verbatim>\<open>TypeError\<close> for a value that has no length.\<close>

fun py_len :: "pyval \<Rightarrow> exn + nat" where
  "py_len (PStr s) = Inr (length s)"
| "py_len (PTuple xs) = Inr (length xs)"
| "py_len (PResults xs) = Inr (length xs)"
| "py_len v = Inl (Exn TypeError
     [OFmt ''object of type '{0}' has no len()'' [OVal (PStr (type_name v))]])"

text \<open>\<^verbatim>\<open>x[i]\<close> for an index \<open>i \<ge> 0\<close>; a \<^verbatim>\<open>ParseResults\<close> reads its token list.\<close>

fun py_getitem :: "pyval \<Rightarrow> nat \<Rightarrow> exn + pyval" where
  "py_getitem (PStr s) i =
     (if i < length s then Inr (PStr [s ! i])
      else Inl (Exn IndexError [OVal (PStr ''string index out of range'')]))"
| "py_getitem (PTuple xs) i =
     (if i < length xs then Inr (xs ! i)
      else Inl (Exn IndexError [OVal (PStr ''tuple index out of range'')]))"
| "py_getitem (PResults xs) i =
     (if i < length xs then Inr (xs ! i)
      else Inl (Exn IndexError [OVal (PStr ''list index out of range'')]))"
| "py_getitem v i = Inl (Exn TypeError
     [OFmt '''{0}' object is not subscriptable'' [OVal (PStr (type_name v))]])"

text \<open>
  \<^verbatim>\<open>a, b = x\<close>: every iterable of exactly two items unpacks, a string into its two
  characters.
\<close>

definition unpack_error :: "nat \<Rightarrow> exn" where
  "unpack_error n =
     (if n < 2
      then Exn ValueError
             [OFmt ''not enough values to unpack (expected 2, got {0})'' [OVal (PInt (int n))]]
      else Exn ValueError [OVal (PStr ''too many values to unpack (expected 2)'')])"

fun unpack2 :: "pyval \<Rightarrow> exn + (pyval \<times> pyval)" where
  "unpack2 (PTuple [x, y]) = Inr (x, y)"
| "unpack2 (PResults [x, y]) = Inr (x, y)"
| "unpack2 (PStr [c, d]) = Inr (PStr [c], PStr [d])"
| "unpack2 (PTuple xs) = Inl (unpack_error (length xs))"
| "unpack2 (PResults xs) = Inl (unpack_error (length xs))"
| "unpack2 (PStr s) = Inl (unpack_error (length s))"
| "unpack2 v = Inl (Exn TypeError
     [OFmt ''cannot unpack non-iterable {0} object'' [OVal (PStr (type_name v))]])"

text \<open>\<^verbatim>\<open>str.upper()\<close> on the ASCII letters; every other byte is kept.\<close>

definition upper_char :: "char \<Rightarrow> char" where
  "upper_char c =
     (case map_of (zip ''abcdefghijklmnopqrstuvwxyz'' ''ABCDEFGHIJKLMNOPQRSTUVWXYZ'') c of
        Some u \<Rightarrow> u
      | None \<Rightarrow> c)"

definition upper :: "string \<Rightarrow> string" where
  "upper s = map upper_char s"

text \<open>
  \<^verbatim>\<open>''.join(xs)\<close>: a \<^verbatim>\<open>TypeError\<close> at the first item that is not a string.
\<close>

fun py_join :: "nat \<Rightarrow> pyval list \<Rightarrow> exn + string" where
  "py_join i [] = Inr []"
| "py_join i (PStr s # xs) =
     (case py_join (Suc i) xs of Inl e \<Rightarrow> Inl e | Inr t \<Rightarrow> Inr (s @ t))"
| "py_join i (v # xs) = Inl (Exn TypeError
     [OFmt ''sequence item {0}: expected str instance, {1} found''
        [OVal (PInt (int i)), OVal (PStr (type_name v))]])"

text \<open>
  \<^verbatim>\<open>k in d\<close> and \<^verbatim>\<open>d[k]\<close> on a dictionary whose keys are strings: a key that is not a
  string is hashable (a \<^verbatim>\<open>ParseResults\<close> by identity) and equals no key of \<open>d\<close>.
\<close>

fun dict_get :: "(string \<rightharpoonup> 'v) \<Rightarrow> pyval \<Rightarrow> 'v option" where
  "dict_get d (PStr s) = d s"
| "dict_get d v = None"

section \<open>The service adapter\<close>

text \<open>
  The keyword arguments of \<^verbatim>\<open>render_filter_term\<close>; an argument that is not passed has its
  default \<^verbatim>\<open>None\<close>.
\<close>

record kwargs =
  key :: pyval
  value_text :: "string option"
  value_number :: "pyval option"
  value_range :: "(pyval \<times> pyval) option"

type_synonym result = "string \<rightharpoonup> pyval"

text \<open>
  A service is the mixin classes with the members a service overrides: the two direct
  mappings, the two registries that \<^verbatim>\<open>conf_search\<close> and \<^verbatim>\<open>conf_textsearch\<close> build from the
  decorated methods, and the methods "expected to be overwritten by individual services".
  A method is a function that returns a value or raises. \<open>'r\<close> is the type of the raw
  response of the service.
\<close>

record 'r adapter =
  direct_fields_mapping :: "string \<rightharpoonup> string"
  translate_field_methods_registry :: "string \<rightharpoonup> (result \<Rightarrow> exn + pyval)"
  direct_filters_mapping :: "string \<rightharpoonup> string"
  translate_filter_methods_registry :: "string \<rightharpoonup> (pyval \<Rightarrow> exn + pyval)"
  render_filter_term :: "kwargs \<Rightarrow> exn + pyval"
  render_operator_term :: "string \<Rightarrow> exn + pyval"
  process_s_query_parameter :: "string \<Rightarrow> bool \<Rightarrow> bool \<Rightarrow> exn + (string \<times> pyval) list"
  get_results_list_from_response :: "'r \<Rightarrow> exn + result list"
  get_num_results_from_response :: "'r \<Rightarrow> exn + pyval"

text \<open>
  The bodies of \<^verbatim>\<open>ACServiceTextSearchMixin.render_filter_term\<close> and
  \<^verbatim>\<open>render_operator_term\<close>: each builds a \<^verbatim>\<open>NotImplementedError\<close>, has no \<^verbatim>\<open>raise\<close> and no
  \<^verbatim>\<open>return\<close>, so the call returns \<^verbatim>\<open>None\<close>.
\<close>

definition base_render_filter_term :: "kwargs \<Rightarrow> exn + pyval" where
  "base_render_filter_term kw = Inr PNone"

definition base_render_operator_term :: "string \<Rightarrow> exn + pyval" where
  "base_render_operator_term operator = Inr PNone"

section \<open>Field translation\<close>

text \<open>The \<^verbatim>\<open>try\<close> block of \<^verbatim>\<open>translate_field\<close>; \<open>Inr None\<close> when it falls through.\<close>

definition translate_field_try :: "'r adapter \<Rightarrow> string \<Rightarrow> result \<Rightarrow> exn + pyval option" where
  "translate_field_try a ac_field_name result =
     (case direct_fields_mapping a ac_field_name of
        Some k \<Rightarrow>
          (case result k of
             Some v \<Rightarrow> Inr (Some v)
           | None \<Rightarrow> Inl (Exn KeyError [OVal (PStr k)]))
      | None \<Rightarrow>
          (case translate_field_methods_registry a ac_field_name of
             Some m \<Rightarrow> (case m result of Inl e \<Rightarrow> Inl e | Inr v \<Rightarrow> Inr (Some v))
           | None \<Rightarrow> Inr None))"

definition translate_field :: "'r adapter \<Rightarrow> string \<Rightarrow> result \<Rightarrow> exn + pyval" where
  "translate_field a ac_field_name result =
     (case translate_field_try a ac_field_name result of
        Inl e \<Rightarrow> Inl (Exn ACFieldTranslateException
          [OFmt ''Can't translate field '{0}' ({1}: {2})''
             [OVal (PStr ac_field_name), OVal (PStr (class_name (exn_class e))), OExn e]])
      | Inr (Some v) \<Rightarrow> Inr v
      | Inr None \<Rightarrow> Inl (Exn ACFieldTranslateException
          [OFmt ''Can't translate field '{0}' (unexpected field)''
             [OVal (PStr ac_field_name)]]))"

text \<open>
  Modelled from the spec: \<^verbatim>\<open>add_response_warning\<close> is a method of the missing base class
  of the services; it "accumulates a diagnostic string visible in the final envelope".
\<close>

type_synonym warnings = "pyobj list"

definition add_response_warning :: "pyobj \<Rightarrow> warnings \<Rightarrow> warnings" where
  "add_response_warning msg w = w @ [msg]"

text \<open>
  The loop of \<^verbatim>\<open>translate_single_result\<close> over the target fields, with the dictionary
  \<^verbatim>\<open>translated_result\<close> and the warnings of the service as the state.
\<close>

fun translate_target_fields ::
  "'r adapter \<Rightarrow> result \<Rightarrow> string list \<Rightarrow> result \<Rightarrow> warnings \<Rightarrow> (exn + result) \<times> warnings"
where
  "translate_target_fields a result [] translated_result w = (Inr translated_result, w)"
| "translate_target_fields a result (ac_field_name # fs) translated_result w =
     (case translate_field a ac_field_name result of
        Inr trans_field_value \<Rightarrow>
          translate_target_fields a result fs
            (translated_result(ac_field_name \<mapsto> trans_field_value)) w
      | Inl e \<Rightarrow>
          if exn_class e = ACFieldTranslateException
          then translate_target_fields a result fs translated_result
                 (add_response_warning
                    (OFmt ''Can't return unsupported field {0}'' [OVal (PStr ac_field_name)]) w)
          else (Inl e, w))"

definition translate_single_result ::
  "'r adapter \<Rightarrow> result \<Rightarrow> string list option \<Rightarrow> pyval \<Rightarrow> warnings \<Rightarrow> (exn + result) \<times> warnings"
where
  "translate_single_result a result target_fields format w =
     translate_target_fields a result
       (case target_fields of None \<Rightarrow> [] | Some fs \<Rightarrow> fs) Map.empty w"

text \<open>
  \<^verbatim>\<open>common_search_params\<close>: the entries of the dictionary that hold a list of field names
  or \<^verbatim>\<open>None\<close>; \<^verbatim>\<open>format_search_response\<close> reads \<^verbatim>\<open>'fields'\<close> only.
\<close>

type_synonym search_params = "string \<rightharpoonup> string list option"

definition get_fields :: "search_params \<Rightarrow> string list option" where
  "get_fields common_search_params =
     (case common_search_params ''fields'' of None \<Rightarrow> None | Some v \<Rightarrow> v)"

text \<open>The returned dictionary, with the keys \<^verbatim>\<open>NUM_RESULTS_PROP\<close> and \<^verbatim>\<open>RESULTS_LIST\<close>.\<close>

record search_response =
  num_results :: pyval
  results_list :: "result list"

fun translate_results ::
  "'r adapter \<Rightarrow> result list \<Rightarrow> search_params \<Rightarrow> pyval \<Rightarrow> result list \<Rightarrow> warnings
     \<Rightarrow> (exn + result list) \<times> warnings"
where
  "translate_results a [] common_search_params format results w = (Inr results, w)"
| "translate_results a (result # rs) common_search_params format results w =
     (case translate_single_result a result (get_fields common_search_params) format w of
        (Inl e, w') \<Rightarrow> (Inl e, w')
      | (Inr translated_result, w') \<Rightarrow>
          translate_results a rs common_search_params format (results @ [translated_result]) w')"

definition format_search_response ::
  "'r adapter \<Rightarrow> 'r \<Rightarrow> search_params \<Rightarrow> pyval \<Rightarrow> warnings \<Rightarrow> (exn + search_response) \<times> warnings"
where
  "format_search_response a response common_search_params format w =
     (case get_results_list_from_response a response of
        Inl e \<Rightarrow> (Inl e, w)
      | Inr rs \<Rightarrow>
          (case translate_results a rs common_search_params format [] w of
             (Inl e, w') \<Rightarrow> (Inl e, w')
           | (Inr results, w') \<Rightarrow>
               (case get_num_results_from_response a response of
                  Inl e \<Rightarrow> (Inl e, w')
                | Inr n \<Rightarrow> (Inr \<lparr>num_results = n, results_list = results\<rparr>, w'))))"

section \<open>Supported sorting criteria\<close>

text \<open>
  \<^verbatim>\<open>get_supported_sorting_criteria\<close>; the constant \<^verbatim>\<open>SORT_OPTIONS\<close> of the missing
  \<^verbatim>\<open>constants\<close> module is the parameter \<open>sort_options\<close>. \<open>Inr None\<close> from a probe is the
  \<^verbatim>\<open>return list()\<close> of its \<^verbatim>\<open>NotImplementedError\<close> clause.
\<close>

definition probe_sort ::
  "'r adapter \<Rightarrow> string \<Rightarrow> bool \<Rightarrow> string list \<Rightarrow> exn + string list option"
where
  "probe_sort a option desc supported_criteria =
     (case process_s_query_parameter a option desc True of
        Inr _ \<Rightarrow>
          Inr (Some (supported_criteria @ [if desc then ''-'' @ option else option]))
      | Inl e \<Rightarrow>
          if isinstance_ACException (exn_class e) then Inr (Some supported_criteria)
          else if exn_class e = NotImplementedError then Inr None
          else Inl e)"

fun sorting_criteria_loop :: "'r adapter \<Rightarrow> string list \<Rightarrow> string list \<Rightarrow> exn + string list" where
  "sorting_criteria_loop a [] supported_criteria = Inr supported_criteria"
| "sorting_criteria_loop a (option # options) supported_criteria =
     (case probe_sort a option True supported_criteria of
        Inl e \<Rightarrow> Inl e
      | Inr None \<Rightarrow> Inr []
      | Inr (Some sc1) \<Rightarrow>
          (case probe_sort a option False sc1 of
             Inl e \<Rightarrow> Inl e
           | Inr None \<Rightarrow> Inr []
           | Inr (Some sc2) \<Rightarrow> sorting_criteria_loop a options sc2))"

definition get_supported_sorting_criteria :: "'r adapter \<Rightarrow> string list \<Rightarrow> exn + string list" where
  "get_supported_sorting_criteria a sort_options = sorting_criteria_loop a sort_options []"

text \<open>
  The three outcomes of one probe that the \<^verbatim>\<open>try\<close> statement tells apart: the call
  returns, it raises what \<^verbatim>\<open>except ACException\<close> catches, it raises
  \<^verbatim>\<open>NotImplementedError\<close>.
\<close>

definition probe_returns :: "'r adapter \<Rightarrow> string \<Rightarrow> bool \<Rightarrow> bool" where
  "probe_returns a option desc =
     (case process_s_query_parameter a option desc True of Inr _ \<Rightarrow> True | Inl _ \<Rightarrow> False)"

definition probe_unsupported :: "'r adapter \<Rightarrow> string \<Rightarrow> bool \<Rightarrow> bool" where
  "probe_unsupported a option desc =
     (case process_s_query_parameter a option desc True of
        Inr _ \<Rightarrow> False
      | Inl e \<Rightarrow> isinstance_ACException (exn_class e))"

definition probe_not_implemented :: "'r adapter \<Rightarrow> string \<Rightarrow> bool \<Rightarrow> bool" where
  "probe_not_implemented a option desc =
     (case process_s_query_parameter a option desc True of
        Inr _ \<Rightarrow> False
      | Inl e \<Rightarrow> exn_class e = NotImplementedError)"

section \<open>Filter translation and rendering\<close>

text \<open>The \<^verbatim>\<open>try\<close> block of \<^verbatim>\<open>translate_filter\<close>.\<close>

definition translate_filter_try :: "'r adapter \<Rightarrow> pyval \<Rightarrow> pyval \<Rightarrow> exn + pyval" where
  "translate_filter_try a ac_field_name v =
     (case dict_get (direct_filters_mapping a) ac_field_name of
        Some k \<Rightarrow> Inr (PTuple [PStr k, v])
      | None \<Rightarrow>
          (case dict_get (translate_filter_methods_registry a) ac_field_name of
             None \<Rightarrow> Inl (Exn KeyError [OVal ac_field_name])
           | Some m \<Rightarrow> m v))"

definition translate_filter :: "'r adapter \<Rightarrow> pyval \<Rightarrow> pyval \<Rightarrow> exn + pyval" where
  "translate_filter a ac_field_name v =
     (case translate_filter_try a ac_field_name v of
        Inr r \<Rightarrow> Inr r
      | Inl e \<Rightarrow>
          if exn_class e = KeyError
          then Inl (Exn ACFilterParsingException
                 [OFmt ''Filter for field '{0}' not supported'' [OVal ac_field_name]])
          else if exn_class e = ACFilterParsingException then Inl e
          else Inl (Exn ACFilterParsingException
                 [OFmt ''Unexpected error processing filter for field '{0}' ({1}: {2})''
                    [OVal ac_field_name, OVal (PStr (class_name (exn_class e))), OExn e]]))"

text \<open>The three local predicates of \<^verbatim>\<open>process_filter_element\<close>.\<close>

definition is_filter_term :: "pyval \<Rightarrow> exn + bool" where
  "is_filter_term parse_results =
     (case py_len parse_results of
        Inl e \<Rightarrow> Inl e
      | Inr n \<Rightarrow>
          if n = 3
          then (case py_getitem parse_results 1 of
                  Inl e \<Rightarrow> Inl e
                | Inr v \<Rightarrow> Inr (v = PStr '':''))
          else Inr False)"

definition is_operator :: "pyval \<Rightarrow> bool" where
  "is_operator parse_results =
     (case parse_results of
        PStr s \<Rightarrow> upper s \<in> set [''AND'', ''OR'', ''NOT'']
      | _ \<Rightarrow> False)"

text \<open>
  \<^verbatim>\<open>parse_results[0].upper() == 'NOT'\<close> inside \<^verbatim>\<open>try\<close>: an index out of range, and an item
  that has no method \<^verbatim>\<open>upper\<close> to call, raise and give \<^verbatim>\<open>False\<close>.
\<close>

definition is_not_structure :: "pyval \<Rightarrow> bool" where
  "is_not_structure parse_results =
     (case py_getitem parse_results 0 of
        Inr (PStr s) \<Rightarrow> upper s = ''NOT''
      | _ \<Rightarrow> False)"

text \<open>The keyword arguments chosen by the type of the translated value.\<close>

fun filter_term_kwargs :: "pyval \<Rightarrow> pyval \<Rightarrow> kwargs" where
  "filter_term_kwargs k (PInt n) =
     \<lparr>key = k, value_text = None, value_number = Some (PInt n), value_range = None\<rparr>"
| "filter_term_kwargs k (PFloat m e) =
     \<lparr>key = k, value_text = None, value_number = Some (PFloat m e), value_range = None\<rparr>"
| "filter_term_kwargs k (PStr s) =
     \<lparr>key = k, value_text = Some s, value_number = None, value_range = None\<rparr>"
| "filter_term_kwargs k (PTuple [x, y]) =
     \<lparr>key = k, value_text = None, value_number = None, value_range = Some (x, y)\<rparr>"
| "filter_term_kwargs k v =
     \<lparr>key = k, value_text = None, value_number = None, value_range = None\<rparr>"

text \<open>
  The translation of the field and the value of a filter term: a \<^verbatim>\<open>ParseResults\<close> of two
  items is a range, whose bounds are translated one after the other.
\<close>

definition translate_term_value :: "'r adapter \<Rightarrow> pyval \<Rightarrow> pyval \<Rightarrow> exn + (pyval \<times> pyval)" where
  "translate_term_value a fkey fvalue =
     (case fvalue of
        PResults [low, high] \<Rightarrow>
          (case translate_filter a fkey low of
             Inl e \<Rightarrow> Inl e
           | Inr r1 \<Rightarrow>
               (case unpack2 r1 of
                  Inl e \<Rightarrow> Inl e
                | Inr (k, value1) \<Rightarrow>
                    (case translate_filter a fkey high of
                       Inl e \<Rightarrow> Inl e
                     | Inr r2 \<Rightarrow>
                         (case unpack2 r2 of
                            Inl e \<Rightarrow> Inl e
                          | Inr (_, value2) \<Rightarrow> Inr (k, PTuple [value1, value2])))))
      | _ \<Rightarrow>
          (case translate_filter a fkey fvalue of
             Inl e \<Rightarrow> Inl e
           | Inr r \<Rightarrow> unpack2 r))"

text \<open>The branch of \<^verbatim>\<open>process_filter_element\<close> for a filter term.\<close>

definition process_filter_term :: "'r adapter \<Rightarrow> pyval \<Rightarrow> pyval list \<Rightarrow> exn + pyval list" where
  "process_filter_term a elm filter_list =
     (case py_getitem elm 0 of
        Inl e \<Rightarrow> Inl e
      | Inr fkey \<Rightarrow>
          (case py_getitem elm 2 of
             Inl e \<Rightarrow> Inl e
           | Inr fvalue \<Rightarrow>
               (case translate_term_value a fkey fvalue of
                  Inl e \<Rightarrow> Inl e
                | Inr (k, v) \<Rightarrow>
                    (case render_filter_term a (filter_term_kwargs k v) of
                       Inl e \<Rightarrow> Inl e
                     | Inr t \<Rightarrow> Inr (filter_list @ [t])))))"

text \<open>
  \<^verbatim>\<open>process_filter_element\<close>, with the list \<^verbatim>\<open>filter_list\<close> that it appends to passed in and
  returned; \<open>process_filter_items\<close> is its \<^verbatim>\<open>for item in elm\<close> loop.
\<close>

fun process_filter_element :: "'r adapter \<Rightarrow> pyval \<Rightarrow> pyval list \<Rightarrow> exn + pyval list"
  and process_filter_items :: "'r adapter \<Rightarrow> pyval list \<Rightarrow> pyval list \<Rightarrow> exn + pyval list"
where
  "process_filter_element a elm filter_list =
     (case is_filter_term elm of
        Inl e \<Rightarrow> Inl e
      | Inr True \<Rightarrow> process_filter_term a elm filter_list
      | Inr False \<Rightarrow>
          (case elm of
             PStr s \<Rightarrow>
               if is_operator elm
               then (case render_operator_term a (upper s) of
                       Inl e \<Rightarrow> Inl e
                     | Inr t \<Rightarrow> Inr (filter_list @ [t]))
               else Inl (Exn ACFilterParsingException [])
           | PResults items \<Rightarrow>
               (case process_filter_items a items
                       (if is_not_structure elm then filter_list else filter_list @ [PStr ''(''])
                of
                  Inl e \<Rightarrow> Inl e
                | Inr fl \<Rightarrow> Inr (if is_not_structure elm then fl else fl @ [PStr '')'']))
           | _ \<Rightarrow> Inl (Exn ACFilterParsingException [])))"
| "process_filter_items a [] filter_list = Inr filter_list"
| "process_filter_items a (item # items) filter_list =
     (case process_filter_element a item filter_list of
        Inl e \<Rightarrow> Inl e
      | Inr fl \<Rightarrow> process_filter_items a items fl)"

declare process_filter_element.simps [simp del]

text \<open>
  \<^verbatim>\<open>build_filter_string\<close>; the parser \<^verbatim>\<open>parse_filter\<close> of the missing \<^verbatim>\<open>utils\<close> module is
  a parameter.
\<close>

definition build_filter_string ::
  "'r adapter \<Rightarrow> (string \<Rightarrow> exn + pyval) \<Rightarrow> string \<Rightarrow> exn + string"
where
  \<open>build_filter_string a parse_filter filter_input_value =
     (case parse_filter filter_input_value of
        Inl e \<Rightarrow>
          if exn_class e = ParseException
          then Inl (Exn ACFilterParsingException
                 [OFmt ''Could not parse filter: "{0}"'' [OVal (PStr filter_input_value)]])
          else Inl e
      | Inr parsed_filter \<Rightarrow>
          (case py_getitem parsed_filter 0 of
             Inl e \<Rightarrow> Inl e
           | Inr root \<Rightarrow>
               (case process_filter_element a root [] of
                  Inl e \<Rightarrow> Inl e
                | Inr out_filter_list \<Rightarrow>
                    (case out_filter_list of
                       [] \<Rightarrow> Inl (Exn IndexError [OVal (PStr ''list index out of range'')])
                     | t # _ \<Rightarrow>
                         py_join 0
                           (if t = PStr ''(''
                            then butlast (tl out_filter_list)
                            else out_filter_list)))))\<close>

text \<open>
  The filter terms that \<^verbatim>\<open>process_filter_element\<close> comes to in an element, from left to
  right: the element itself when it is a filter term, the terms of the items of a
  \<^verbatim>\<open>ParseResults\<close> otherwise.
\<close>

fun filter_terms :: "pyval \<Rightarrow> pyval list" where
  "filter_terms elm =
     (if is_filter_term elm = Inr True then [elm]
      else (case elm of
              PResults items \<Rightarrow> concat (map filter_terms items)
            | _ \<Rightarrow> []))"

declare filter_terms.simps [simp del]

text \<open>
  A list put in front of the list that a call returns: what a call of
  \<^verbatim>\<open>process_filter_element\<close> does to the list it is given.
\<close>

definition prepend :: "pyval list \<Rightarrow> exn + pyval list \<Rightarrow> exn + pyval list" where
  "prepend fl r = (case r of Inl e \<Rightarrow> Inl e | Inr ts \<Rightarrow> Inr (fl @ ts))"

section \<open>An example service\<close>

text \<open>
  A service in the style of the spec's examples: identity filters for \<open>a\<close>, \<open>b\<close>, \<open>c\<close>, a
  term rendered as \<open>k=v\<close> and an operator as the operator between two spaces.
\<close>

fun str_nat :: "nat \<Rightarrow> string" where
  "str_nat n =
     (if n < 10 then [''0123456789'' ! n]
      else str_nat (n div 10) @ [''0123456789'' ! (n mod 10)])"

definition str_int :: "int \<Rightarrow> string" where
  "str_int i = (if i < 0 then ''-'' @ str_nat (nat (- i)) else str_nat (nat i))"

definition example_render_filter_term :: "kwargs \<Rightarrow> exn + pyval" where
  "example_render_filter_term kw =
     (case key kw of
        PStr k \<Rightarrow>
          (case (value_text kw, value_number kw, value_range kw) of
             (Some s, _, _) \<Rightarrow> Inr (PStr (k @ ''='' @ s))
           | (None, Some (PInt n), _) \<Rightarrow> Inr (PStr (k @ ''='' @ str_int n))
           | (None, None, Some (PInt l, PInt h)) \<Rightarrow>
               Inr (PStr (k @ ''=['' @ str_int l @ '' TO '' @ str_int h @ '']''))
           | _ \<Rightarrow> Inl (Exn ValueError [OVal (PStr ''unsupported filter value'')]))
      | _ \<Rightarrow> Inl (Exn TypeError [OVal (PStr ''key must be str'')]))"

definition example_render_operator_term :: "string \<Rightarrow> exn + pyval" where
  "example_render_operator_term operator = Inr (PStr ('' '' @ operator @ '' ''))"

definition example_translate_id :: "result \<Rightarrow> exn + pyval" where
  "example_translate_id r =
     (case r ''id'' of
        None \<Rightarrow> Inl (Exn KeyError [OVal (PStr ''id'')])
      | Some v \<Rightarrow> Inr v)"

definition example_translate_license :: "result \<Rightarrow> exn + pyval" where
  "example_translate_license r = Inl (Exn ValueError [OVal (PStr ''unknown license'')])"

definition example_translate_shadowed :: "result \<Rightarrow> exn + pyval" where
  "example_translate_shadowed r = Inr (PStr ''from the translator method'')"

definition example_filter_duration :: "pyval \<Rightarrow> exn + pyval" where
  "example_filter_duration v = Inr (PTuple [PStr ''dur'', v])"

definition example_filter_tag :: "pyval \<Rightarrow> exn + pyval" where
  "example_filter_tag v = Inl (Exn KeyError [OVal v])"

definition example_filter_size :: "pyval \<Rightarrow> exn + pyval" where
  "example_filter_size v = Inl (Exn ValueError [OVal (PStr ''size is not a number'')])"

definition example_filter_date :: "pyval \<Rightarrow> exn + pyval" where
  "example_filter_date v =
     Inr (PTuple [PStr (if v = PInt 1 then ''created_after'' else ''created_before''), v])"

definition example_process_s_query_parameter ::
  "string \<Rightarrow> bool \<Rightarrow> bool \<Rightarrow> exn + (string \<times> pyval) list"
where
  "example_process_s_query_parameter s desc raise_exception_if_unsupported =
     (if s = ''relevance'' then Inr [(''sort'', PStr ''score'')]
      else if s = ''downloads'' \<and> desc then Inr [(''sort'', PStr ''downloads_desc'')]
      else if raise_exception_if_unsupported
      then Inl (Exn ACException [OVal (PStr ''Sorting criteria not supported'')])
      else Inr [])"

definition example_service :: "result list adapter" where
  "example_service =
     \<lparr>direct_fields_mapping = [''name'' \<mapsto> ''original_filename''],
      translate_field_methods_registry =
        [''name'' \<mapsto> example_translate_shadowed,
         ''id'' \<mapsto> example_translate_id,
         ''license'' \<mapsto> example_translate_license],
      direct_filters_mapping = [''a'' \<mapsto> ''a'', ''b'' \<mapsto> ''b'', ''c'' \<mapsto> ''c''],
      translate_filter_methods_registry =
        [''duration'' \<mapsto> example_filter_duration,
         ''tag'' \<mapsto> example_filter_tag,
         ''size'' \<mapsto> example_filter_size,
         ''date'' \<mapsto> example_filter_date],
      render_filter_term = example_render_filter_term,
      render_operator_term = example_render_operator_term,
      process_s_query_parameter = example_process_s_query_parameter,
      get_results_list_from_response = Inr,
      get_num_results_from_response = (\<lambda>response. Inr (PInt (int (length response))))\<rparr>"

text \<open>One raw result of the example service.\<close>

definition example_result :: result where
  "example_result = [''original_filename'' \<mapsto> PStr ''bell.wav'', ''id'' \<mapsto> PInt 7]"

text \<open>The same service without its two render methods: the mixin's own are called.\<close>

definition unrendered_service :: "result list adapter" where
  "unrendered_service =
     example_service
       \<lparr>render_filter_term := base_render_filter_term,
        render_operator_term := base_render_operator_term\<rparr>"

text \<open>The same service with a sort method that is the mixin's own for one option.\<close>

definition half_sorted_process_s_query_parameter ::
  "string \<Rightarrow> bool \<Rightarrow> bool \<Rightarrow> exn + (string \<times> pyval) list"
where
  "half_sorted_process_s_query_parameter s desc raise_exception_if_unsupported =
     (if s = ''popularity''
      then Inl (Exn NotImplementedError
                  [OFmt ''Parameter '{0}' not supported'' [OVal (PStr ''s'')]])
      else example_process_s_query_parameter s desc raise_exception_if_unsupported)"

definition half_sorted_service :: "result list adapter" where
  "half_sorted_service =
     example_service\<lparr>process_s_query_parameter := half_sorted_process_s_query_parameter\<rparr>"

text \<open>A parser that rejects its input, and one that knows four filter strings.\<close>

definition rejecting_parse_filter :: "string \<Rightarrow> exn + pyval" where
  "rejecting_parse_filter s = Inl (Exn ParseException [OVal (PStr ''Expected end of text'')])"

definition example_tree :: pyval where
  "example_tree =
     PResults
       [PResults [PResults [PStr ''a'', PStr '':'', PInt 1], PStr ''OR'',
                  PResults [PStr ''b'', PStr '':'', PInt 2]],
        PStr ''AND'',
        PResults [PStr ''NOT'', PResults [PStr ''c'', PStr '':'', PInt 3]]]"

definition not_tree :: pyval where
  "not_tree =
     PResults [PStr ''NOT'',
       PResults [PResults [PStr ''a'', PStr '':'', PInt 1], PStr ''OR'',
                 PResults [PStr ''b'', PStr '':'', PInt 2]]]"

definition example_parse_filter :: "string \<Rightarrow> exn + pyval" where
  "example_parse_filter s =
     (if s = ''(a:1 OR b:2) AND NOT c:3'' then Inr (PResults [example_tree])
      else if s = ''NOT (a:1 OR b:2)'' then Inr (PResults [not_tree])
      else if s = ''(a:1)'' then Inr (PResults [PResults [PResults [PStr ''a'', PStr '':'', PInt 1]]])
      else if s = ''a:1'' then Inr (PResults [PResults [PStr ''a'', PStr '':'', PInt 1]])
      else rejecting_parse_filter s)"

text \<open>
  Two services that render a token as the bare opening parenthesis: the first the
  operator \<^verbatim>\<open>NOT\<close>, the second every filter term. A filter with a field that the example
  service cannot filter on, and a parser that knows it.
\<close>

definition paren_render_operator_term :: "string \<Rightarrow> exn + pyval" where
  "paren_render_operator_term operator =
     (if operator = ''NOT'' then Inr (PStr ''('') else example_render_operator_term operator)"

definition paren_not_service :: "result list adapter" where
  "paren_not_service = example_service\<lparr>render_operator_term := paren_render_operator_term\<rparr>"

definition paren_render_filter_term :: "kwargs \<Rightarrow> exn + pyval" where
  "paren_render_filter_term kw = Inr (PStr ''('')"

definition paren_term_service :: "result list adapter" where
  "paren_term_service = example_service\<lparr>render_filter_term := paren_render_filter_term\<rparr>"

definition untranslatable_tree :: pyval where
  "untranslatable_tree =
     PResults
       [PResults [PResults [PStr ''a'', PStr '':'', PInt 1], PStr ''OR'',
                  PResults [PStr ''bitrate'', PStr '':'', PInt 320]],
        PStr ''AND'',
        PResults [PStr ''c'', PStr '':'', PInt 3]]"

definition untranslatable_parse_filter :: "string \<Rightarrow> exn + pyval" where
  "untranslatable_parse_filter s =
     (if s = ''(a:1 OR bitrate:320) AND c:3'' then Inr (PResults [untranslatable_tree])
      else if s = ''size:[1,5]''
      then Inr (PResults [PResults [PStr ''size'', PStr '':'', PResults [PInt 1, PInt 5]]])
      else rejecting_parse_filter s)"

section \<open>Auxiliary facts\<close>

lemma upper_examples [simp]:
  "upper ''AND'' = ''AND''" "upper ''OR'' = ''OR''" "upper ''NOT'' = ''NOT''"
  "upper ''and'' = ''AND''" "upper ''not'' = ''NOT''"
  by (simp_all add: upper_def upper_char_def)

text \<open>An operator string is never taken for a filter term: its middle character is no colon.\<close>

lemma is_operator_not_term:
  assumes "is_operator (PStr s)"
  shows "is_filter_term (PStr s) = Inr False"
proof -
  have u: "upper_char CHR '':'' = CHR '':''" by (simp add: upper_char_def)
  from assms have ops: "upper s = ''AND'' \<or> upper s = ''OR'' \<or> upper s = ''NOT''"
    by (simp add: is_operator_def)
  show ?thesis
  proof (cases "length s = 3")
    case False
    then show ?thesis by (simp add: is_filter_term_def)
  next
    case True
    then obtain x y z where s: "s = [x, y, z]"
      by (metis (no_types, opaque_lifting) length_0_conv length_Suc_conv numeral_3_eq_3)
    with ops have "upper_char y = CHR ''N'' \<or> upper_char y = CHR ''O''"
      by (auto simp: upper_def)
    then have "y \<noteq> CHR '':''" using u by auto
    then show ?thesis using s by (simp add: is_filter_term_def)
  qed
qed

lemma translate_field_class:
  "translate_field a f r = Inl e \<Longrightarrow> exn_class e = ACFieldTranslateException"
  by (auto simp: translate_field_def split: sum.splits option.splits)

lemma translate_filter_class:
  "translate_filter a f v = Inl e \<Longrightarrow> exn_class e = ACFilterParsingException"
  by (auto simp: translate_filter_def split: sum.splits if_splits)

text \<open>
  \<^verbatim>\<open>process_filter_element\<close> only appends: the tokens it adds do not depend on the list
  it is given.
\<close>

lemma prepend_simps [simp]:
  "prepend fl (Inl e) = Inl e" "prepend fl (Inr ts) = Inr (fl @ ts)"
  by (simp_all add: prepend_def)

lemma process_filter_term_prepend:
  "process_filter_term a elm fl = prepend fl (process_filter_term a elm [])"
  by (simp add: process_filter_term_def split: sum.splits prod.splits)

lemma process_filter_items_prepend_aux:
  assumes "\<And>x fl. x \<in> set items \<Longrightarrow>
    process_filter_element a x fl = prepend fl (process_filter_element a x [])"
  shows "process_filter_items a items fl = prepend fl (process_filter_items a items [])"
  using assms
proof (induction items arbitrary: fl)
  case Nil
  show ?case by simp
next
  case (Cons x xs)
  have x: "process_filter_element a x fl = prepend fl (process_filter_element a x [])"
    by (rule Cons.prems) simp
  have xs: "\<And>fl. process_filter_items a xs fl = prepend fl (process_filter_items a xs [])"
    by (rule Cons.IH) (rule Cons.prems, simp)
  show ?case
  proof (cases "process_filter_element a x []")
    case (Inl e)
    then show ?thesis using x by simp
  next
    case (Inr ts)
    then have "process_filter_element a x fl = Inr (fl @ ts)" using x by simp
    then show ?thesis using Inr xs [of "fl @ ts"] xs [of ts]
      by (cases "process_filter_items a xs []") simp_all
  qed
qed

lemma process_filter_leaf_prepend:
  assumes "\<And>items. elm \<noteq> PResults items"
  shows "process_filter_element a elm fl = prepend fl (process_filter_element a elm [])"
proof (cases "is_filter_term elm")
  case (Inl e)
  then show ?thesis by (simp add: process_filter_element.simps)
next
  case (Inr b)
  show ?thesis
  proof (cases b)
    case True
    with Inr show ?thesis
      using process_filter_term_prepend [of a elm fl] by (simp add: process_filter_element.simps)
  next
    case False
    show ?thesis
    proof (cases elm)
      case (PResults items)
      with assms show ?thesis by blast
    qed (use Inr False in \<open>simp_all add: process_filter_element.simps split: sum.splits\<close>)
  qed
qed

lemma process_filter_element_prepend:
  "process_filter_element a elm fl = prepend fl (process_filter_element a elm [])"
proof (induction elm arbitrary: fl)
  case (PResults items)
  have ih: "\<And>fl. process_filter_items a items fl = prepend fl (process_filter_items a items [])"
    by (rule process_filter_items_prepend_aux) (rule PResults.IH)
  show ?case
  proof (cases "is_filter_term (PResults items)")
    case (Inl e)
    then show ?thesis by (simp add: process_filter_element.simps)
  next
    case (Inr b)
    show ?thesis
    proof (cases b)
      case True
      with Inr show ?thesis
        using process_filter_term_prepend [of a "PResults items" fl]
        by (simp add: process_filter_element.simps)
    next
      case False
      show ?thesis
      proof (cases "process_filter_items a items []")
        case (Inl e)
        with Inr False show ?thesis
          using ih [of fl] ih [of "fl @ [PStr ''('']"] ih [of "[PStr ''('']"]
          by (simp add: process_filter_element.simps)
      next
        case r: (Inr ts)
        with Inr False show ?thesis
          using ih [of fl] ih [of "fl @ [PStr ''('']"] ih [of "[PStr ''('']"]
          by (simp add: process_filter_element.simps)
      qed
    qed
  qed
qed (rule process_filter_leaf_prepend, simp)+

lemma process_filter_items_prepend:
  "process_filter_items a items fl = prepend fl (process_filter_items a items [])"
  by (rule process_filter_items_prepend_aux) (rule process_filter_element_prepend)

lemma process_filter_items_concat:
  "list_all2 (\<lambda>item ts. process_filter_element a item [] = Inr ts) items tss
   \<Longrightarrow> process_filter_items a items fl = Inr (fl @ concat tss)"
proof (induction items tss arbitrary: fl rule: list_all2_induct)
  case Nil
  show ?case by simp
next
  case (Cons x ts xs tss)
  then show ?case
    using process_filter_element_prepend [of a x fl] by simp
qed

text \<open>The terms and operators of the example filter, rendered one by one.\<close>

lemma example_terms:
  "process_filter_element example_service (PResults [PStr ''a'', PStr '':'', PInt 1]) fl
     = Inr (fl @ [PStr ''a=1''])"
  "process_filter_element example_service (PResults [PStr ''b'', PStr '':'', PInt 2]) fl
     = Inr (fl @ [PStr ''b=2''])"
  "process_filter_element example_service (PResults [PStr ''c'', PStr '':'', PInt 3]) fl
     = Inr (fl @ [PStr ''c=3''])"
  by (simp_all add: process_filter_element.simps process_filter_term_def is_filter_term_def
      translate_term_value_def translate_filter_def translate_filter_try_def
      example_service_def example_render_filter_term_def str_int_def)

lemma example_operators:
  "process_filter_element example_service (PStr ''OR'') fl = Inr (fl @ [PStr '' OR ''])"
  "process_filter_element example_service (PStr ''AND'') fl = Inr (fl @ [PStr '' AND ''])"
  "process_filter_element example_service (PStr ''NOT'') fl = Inr (fl @ [PStr '' NOT ''])"
  by (simp_all add: process_filter_element.simps is_filter_term_def is_operator_def
      example_service_def example_render_operator_term_def)

text \<open>A group that is no filter term, in terms of the tokens of its items.\<close>

lemma process_filter_group:
  assumes "is_filter_term (PResults items) = Inr False"
  shows "process_filter_element a (PResults items) fl =
    (case process_filter_items a items [] of
       Inl e \<Rightarrow> Inl e
     | Inr ts \<Rightarrow>
         Inr (fl @ (if is_not_structure (PResults items) then ts
                    else PStr ''('' # ts @ [PStr '')''])))"
  using assms process_filter_items_prepend [of a items "fl @ [PStr ''('']"]
    process_filter_items_prepend [of a items fl]
  by (simp add: process_filter_element.simps split: sum.splits)

lemma process_filter_term_single:
  "process_filter_term a elm [] = Inr ts \<Longrightarrow> \<exists>t. ts = [t]"
  by (auto simp: process_filter_term_def split: sum.splits prod.splits)

lemma example_or_group:
  "process_filter_element example_service
     (PResults [PResults [PStr ''a'', PStr '':'', PInt 1], PStr ''OR'',
                PResults [PStr ''b'', PStr '':'', PInt 2]]) fl
   = Inr (fl @ [PStr ''('', PStr ''a=1'', PStr '' OR '', PStr ''b=2'', PStr '')''])"
  using process_filter_group [of "[PResults [PStr ''a'', PStr '':'', PInt 1], PStr ''OR'',
                PResults [PStr ''b'', PStr '':'', PInt 2]]" example_service fl]
  by (simp add: example_terms example_operators is_filter_term_def is_not_structure_def)

lemma example_not_group:
  "process_filter_element example_service
     (PResults [PStr ''NOT'', PResults [PStr ''c'', PStr '':'', PInt 3]]) fl
   = Inr (fl @ [PStr '' NOT '', PStr ''c=3''])"
  using process_filter_group [of "[PStr ''NOT'', PResults [PStr ''c'', PStr '':'', PInt 3]]"
      example_service fl]
  by (simp add: example_terms example_operators is_filter_term_def is_not_structure_def)

lemma root_group_tokens:
  assumes "is_filter_term (PResults items) = Inr False"
    and "\<not> is_not_structure (PResults items)"
  shows "process_filter_element a (PResults items) [] =
    (case process_filter_items a items [] of
       Inl e \<Rightarrow> Inl e
     | Inr ts \<Rightarrow> Inr (PStr ''('' # ts @ [PStr '')'']))"
  using assms process_filter_group [of items a "[]"] by (simp split: sum.splits)

text \<open>
  A group whose first item is the operator \<^verbatim>\<open>NOT\<close> starts with the rendering of that
  operator.
\<close>

lemma not_structure_first_token:
  assumes "is_filter_term root = Inr False" and "is_not_structure root"
    and "process_filter_element a root [] = Inr out"
  shows "\<exists>t rest. render_operator_term a ''NOT'' = Inr t \<and> out = t # rest"
proof (cases root)
  case (PResults items)
  with assms(2) obtain s0 xs where items: "items = PStr s0 # xs" and up: "upper s0 = ''NOT''"
    by (cases items) (auto simp: is_not_structure_def split: pyval.splits)
  have op: "is_operator (PStr s0)" using up by (simp add: is_operator_def)
  then have nt: "is_filter_term (PStr s0) = Inr False" by (rule is_operator_not_term)
  have first: "process_filter_element a (PStr s0) [] =
      (case render_operator_term a ''NOT'' of Inl e \<Rightarrow> Inl e | Inr t \<Rightarrow> Inr [t])"
    using op nt up by (simp add: process_filter_element.simps split: sum.splits)
  have grp: "process_filter_items a items [] = Inr out"
    using assms PResults process_filter_group [of items a "[]"]
    by (simp split: sum.splits)
  show ?thesis
  proof (cases "render_operator_term a ''NOT''")
    case (Inl e)
    with first grp items show ?thesis by simp
  next
    case (Inr t)
    with first have "process_filter_element a (PStr s0) [] = Inr [t]" by simp
    with grp items have "process_filter_items a xs [t] = Inr out" by simp
    then have "\<exists>rest. out = t # rest"
      using process_filter_items_prepend [of a xs "[t]"]
      by (cases "process_filter_items a xs []") auto
    with Inr show ?thesis by simp
  qed
next
  case (PStr s)
  with assms(2) show ?thesis
    by (cases s) (auto simp: is_not_structure_def upper_def split: if_splits)
qed (use assms in \<open>auto simp: process_filter_element.simps\<close>)

lemma example_not_tree:
  "process_filter_element example_service not_tree []
     = Inr [PStr '' NOT '', PStr ''('', PStr ''a=1'', PStr '' OR '', PStr ''b=2'', PStr '')'']"
  unfolding not_tree_def
  using process_filter_group [of "[PStr ''NOT'',
       PResults [PResults [PStr ''a'', PStr '':'', PInt 1], PStr ''OR'',
                 PResults [PStr ''b'', PStr '':'', PInt 2]]]" example_service "[]"]
  by (simp add: example_or_group example_operators is_filter_term_def is_not_structure_def)

text \<open>The sorting probes, outcome by outcome, and the loop over the options.\<close>

lemma probe_sort_returns:
  "probe_returns a option desc \<Longrightarrow>
   probe_sort a option desc sc = Inr (Some (sc @ [if desc then ''-'' @ option else option]))"
  by (cases "process_s_query_parameter a option desc True")
    (simp_all add: probe_returns_def probe_sort_def)

lemma probe_sort_unsupported:
  "probe_unsupported a option desc \<Longrightarrow> probe_sort a option desc sc = Inr (Some sc)"
  by (cases "process_s_query_parameter a option desc True")
    (simp_all add: probe_unsupported_def probe_sort_def)

lemma probe_sort_not_implemented:
  "probe_not_implemented a option desc \<Longrightarrow> probe_sort a option desc sc = Inr None"
  by (cases "process_s_query_parameter a option desc True")
    (simp_all add: probe_not_implemented_def probe_sort_def isinstance_ACException_def)

lemma probe_unsupported_not_returns:
  "probe_unsupported a option desc \<Longrightarrow> \<not> probe_returns a option desc"
  by (cases "process_s_query_parameter a option desc True")
    (simp_all add: probe_unsupported_def probe_returns_def)

lemma probe_sort_benign:
  assumes "probe_returns a option desc \<or> probe_unsupported a option desc"
  shows "probe_sort a option desc sc =
    Inr (Some (sc @ (if probe_returns a option desc
                     then [if desc then ''-'' @ option else option] else [])))"
  using assms probe_sort_returns [of a option desc sc] probe_sort_unsupported [of a option desc sc]
    probe_unsupported_not_returns [of a option desc]
  by auto

lemma sorting_criteria_loop_benign:
  assumes "\<forall>option \<in> set options. \<forall>desc.
      probe_returns a option desc \<or> probe_unsupported a option desc"
  shows "sorting_criteria_loop a options sc =
    Inr (sc @ concat (map (\<lambda>option.
        (if probe_returns a option True then [''-'' @ option] else []) @
        (if probe_returns a option False then [option] else [])) options))"
  using assms
proof (induction options arbitrary: sc)
  case Nil
  show ?case by simp
next
  case (Cons option options)
  have d: "probe_returns a option True \<or> probe_unsupported a option True"
    and u: "probe_returns a option False \<or> probe_unsupported a option False"
    using Cons.prems by simp_all
  have rest: "\<forall>option \<in> set options. \<forall>desc.
      probe_returns a option desc \<or> probe_unsupported a option desc"
    using Cons.prems by simp
  show ?case
    by (simp add: probe_sort_benign [OF d] probe_sort_benign [OF u] Cons.IH [OF rest])
qed

lemma sorting_criteria_loop_not_implemented:
  assumes "\<forall>option \<in> set before. \<forall>desc.
      probe_returns a option desc \<or> probe_unsupported a option desc"
    and "probe_not_implemented a option True \<or>
      ((probe_returns a option True \<or> probe_unsupported a option True)
        \<and> probe_not_implemented a option False)"
  shows "sorting_criteria_loop a (before @ option # rest) sc = Inr []"
  using assms(1)
proof (induction before arbitrary: sc)
  case Nil
  from assms(2) show ?case
  proof
    assume "probe_not_implemented a option True"
    then show ?thesis by (simp add: probe_sort_not_implemented)
  next
    assume h: "(probe_returns a option True \<or> probe_unsupported a option True)
        \<and> probe_not_implemented a option False"
    then show ?thesis
      using probe_sort_benign [of a option True sc]
      by (simp add: probe_sort_not_implemented)
  qed
next
  case (Cons b before)
  have d: "probe_returns a b True \<or> probe_unsupported a b True"
    and u: "probe_returns a b False \<or> probe_unsupported a b False"
    using Cons.prems by simp_all
  have rest: "\<forall>option \<in> set before. \<forall>desc.
      probe_returns a option desc \<or> probe_unsupported a option desc"
    using Cons.prems by simp
  show ?case
    by (simp add: probe_sort_benign [OF d] probe_sort_benign [OF u] Cons.IH [OF rest])
qed

lemma example_probes:
  "probe_returns example_service ''relevance'' desc"
  "probe_returns example_service ''downloads'' True"
  "probe_unsupported example_service ''downloads'' False"
  "probe_unsupported example_service ''duration'' desc"
  "\<not> probe_returns example_service ''downloads'' False"
  "\<not> probe_returns example_service ''duration'' desc"
  by (simp_all add: probe_returns_def probe_unsupported_def example_service_def
      example_process_s_query_parameter_def isinstance_ACException_def)

lemma half_sorted_probes:
  "probe_returns half_sorted_service ''relevance'' desc"
  "probe_not_implemented half_sorted_service ''popularity'' desc"
  by (simp_all add: probe_returns_def probe_not_implemented_def half_sorted_service_def
      half_sorted_process_s_query_parameter_def example_service_def
      example_process_s_query_parameter_def)

text \<open>
  The loops of \<^verbatim>\<open>translate_single_result\<close> and \<^verbatim>\<open>format_search_response\<close> in closed form:
  they return, and every field that fails leaves one warning.
\<close>

lemma translate_target_fields_result:
  "translate_target_fields a result fs translated_result w =
    (Inr (\<lambda>f. if f \<in> set fs \<and> \<not> isl (translate_field a f result)
               then Some (projr (translate_field a f result)) else translated_result f),
     w @ map (\<lambda>f. OFmt ''Can't return unsupported field {0}'' [OVal (PStr f)])
           (filter (\<lambda>f. isl (translate_field a f result)) fs))"
proof (induction fs arbitrary: translated_result w)
  case Nil
  show ?case by simp
next
  case (Cons f fs)
  show ?case
  proof (cases "translate_field a f result")
    case (Inl e)
    then have "exn_class e = ACFieldTranslateException" by (rule translate_field_class)
    with Inl show ?thesis
      by (auto simp: Cons.IH add_response_warning_def fun_eq_iff)
  next
    case (Inr v)
    then show ?thesis
      by (auto simp: Cons.IH fun_eq_iff)
  qed
qed

lemma translate_results_result:
  "translate_results a rs common_search_params format results w =
    (Inr (results @ map (\<lambda>r f.
        if f \<in> set (case get_fields common_search_params of None \<Rightarrow> [] | Some fs \<Rightarrow> fs)
           \<and> \<not> isl (translate_field a f r)
        then Some (projr (translate_field a f r)) else None) rs),
     w @ concat (map (\<lambda>r.
        map (\<lambda>f. OFmt ''Can't return unsupported field {0}'' [OVal (PStr f)])
          (filter (\<lambda>f. isl (translate_field a f r))
             (case get_fields common_search_params of None \<Rightarrow> [] | Some fs \<Rightarrow> fs))) rs))"
proof (induction rs arbitrary: results w)
  case Nil
  show ?case by simp
next
  case (Cons r rs)
  show ?case
    by (simp add: translate_single_result_def translate_target_fields_result Cons.IH)
qed

text \<open>
  A failure inside a filter is a failure of the whole: the loop over the items of a
  group stops at the first item that raises, and \<^verbatim>\<open>build_filter_string\<close> catches nothing
  that \<^verbatim>\<open>process_filter_element\<close> raises.
\<close>

lemma process_filter_items_fails:
  assumes "x \<in> set items" and "\<And>fl. isl (process_filter_element a x fl)"
  shows "isl (process_filter_items a items fl)"
  using assms(1)
proof (induction items arbitrary: fl)
  case Nil
  then show ?case by simp
next
  case (Cons y ys)
  show ?case
  proof (cases "process_filter_element a y fl")
    case (Inl e)
    then show ?thesis by simp
  next
    case (Inr fl')
    with assms(2) [of fl] have "x \<noteq> y" by auto
    with Cons.prems have "x \<in> set ys" by simp
    then have "isl (process_filter_items a ys fl')" by (rule Cons.IH)
    with Inr show ?thesis by simp
  qed
qed

lemma process_filter_element_isl_prepend:
  "isl (process_filter_element a x []) \<Longrightarrow> isl (process_filter_element a x fl)"
  using process_filter_element_prepend [of a x fl]
  by (cases "process_filter_element a x []") simp_all

lemma filter_terms_term:
  "is_filter_term elm = Inr True \<Longrightarrow> filter_terms elm = [elm]"
  by (subst filter_terms.simps) simp

lemma filter_terms_group:
  "is_filter_term (PResults items) \<noteq> Inr True \<Longrightarrow>
   filter_terms (PResults items) = concat (map filter_terms items)"
  by (subst filter_terms.simps) simp

lemma filter_terms_leaf:
  "is_filter_term elm \<noteq> Inr True \<Longrightarrow> (\<And>items. elm \<noteq> PResults items) \<Longrightarrow>
   filter_terms elm = []"
  by (subst filter_terms.simps) (cases elm; blast?; simp)

lemma failing_term_is_term:
  assumes "t \<in> set (filter_terms elm)" and "\<And>items. elm \<noteq> PResults items"
  shows "t = elm"
proof (cases "is_filter_term elm = Inr True")
  case True
  with assms(1) show ?thesis by (simp add: filter_terms_term)
next
  case False
  with assms show ?thesis by (simp add: filter_terms_leaf)
qed

lemma failing_term_fails_element:
  "t \<in> set (filter_terms elm) \<Longrightarrow> isl (process_filter_element a t []) \<Longrightarrow>
   isl (process_filter_element a elm fl)"
proof (induction elm arbitrary: fl)
  case (PResults items)
  show ?case
  proof (cases "is_filter_term (PResults items) = Inr True")
    case True
    with PResults.prems have "t = PResults items" by (simp add: filter_terms_term)
    with PResults.prems(2) show ?thesis by (blast intro: process_filter_element_isl_prepend)
  next
    case False
    with PResults.prems(1) obtain x where x: "x \<in> set items" "t \<in> set (filter_terms x)"
      by (auto simp: filter_terms_group)
    have xf: "\<And>fl. isl (process_filter_element a x fl)"
      using PResults.IH [OF x(1) x(2) PResults.prems(2)] .
    have items: "\<And>fl. isl (process_filter_items a items fl)"
      using process_filter_items_fails [OF x(1) xf] .
    show ?thesis
    proof (cases "is_filter_term (PResults items)")
      case (Inl e)
      then show ?thesis by (simp add: process_filter_element.simps)
    next
      case (Inr b)
      with False have nt: "is_filter_term (PResults items) = Inr False" by simp
      obtain e1 where e1: "process_filter_items a items fl = Inl e1"
        using items [of fl] by (cases "process_filter_items a items fl") auto
      obtain e2 where e2: "process_filter_items a items (fl @ [PStr ''('']) = Inl e2"
        using items [of "fl @ [PStr ''('']"]
        by (cases "process_filter_items a items (fl @ [PStr ''(''])") auto
      show ?thesis using nt e1 e2 by (simp add: process_filter_element.simps)
    qed
  qed
next
  case PNone
  then have "t = PNone" using failing_term_is_term [of t PNone] by simp
  with PNone(2) show ?case by (blast intro: process_filter_element_isl_prepend)
next
  case (PInt n)
  then have "t = PInt n" using failing_term_is_term [of t "PInt n"] by simp
  with PInt(2) show ?case by (blast intro: process_filter_element_isl_prepend)
next
  case (PFloat m e)
  then have "t = PFloat m e" using failing_term_is_term [of t "PFloat m e"] by simp
  with PFloat(2) show ?case by (blast intro: process_filter_element_isl_prepend)
next
  case (PStr s)
  then have "t = PStr s" using failing_term_is_term [of t "PStr s"] by simp
  with PStr(2) show ?case by (blast intro: process_filter_element_isl_prepend)
next
  case (PTuple xs)
  then have "t = PTuple xs" using failing_term_is_term [of t "PTuple xs"] by simp
  with PTuple(3) show ?case by (blast intro: process_filter_element_isl_prepend)
qed

lemma build_filter_string_propagates:
  "parse_filter s = Inr parsed_filter \<Longrightarrow> py_getitem parsed_filter 0 = Inr root \<Longrightarrow>
   process_filter_element a root [] = Inl e \<Longrightarrow> build_filter_string a parse_filter s = Inl e"
  by (simp add: build_filter_string_def)

lemma process_filter_term_translation_fails:
  "is_filter_term t = Inr True \<Longrightarrow> py_getitem t 0 = Inr fkey \<Longrightarrow> py_getitem t 2 = Inr fvalue
   \<Longrightarrow> translate_term_value a fkey fvalue = Inl e \<Longrightarrow> process_filter_element a t fl = Inl e"
  by (simp add: process_filter_element.simps process_filter_term_def)

lemma paren_not_tokens:
  "process_filter_element paren_not_service not_tree []
     = Inr [PStr ''('', PStr ''('', PStr ''a=1'', PStr '' OR '', PStr ''b=2'', PStr '')'']"
  by (simp add: not_tree_def process_filter_element.simps process_filter_term_def
      is_filter_term_def is_operator_def is_not_structure_def translate_term_value_def
      translate_filter_def translate_filter_try_def paren_not_service_def
      paren_render_operator_term_def example_service_def example_render_filter_term_def
      example_render_operator_term_def str_int_def)

lemma untranslatable_term:
  "process_filter_element example_service
     (PResults [PStr ''bitrate'', PStr '':'', PInt 320]) [] =
   Inl (Exn ACFilterParsingException
     [OFmt ''Filter for field '{0}' not supported'' [OVal (PStr ''bitrate'')]])"
  by (simp add: process_filter_element.simps process_filter_term_def is_filter_term_def
      translate_term_value_def translate_filter_def translate_filter_try_def example_service_def)

lemma untranslatable_tree_terms:
  "filter_terms untranslatable_tree =
     [PResults [PStr ''a'', PStr '':'', PInt 1],
      PResults [PStr ''bitrate'', PStr '':'', PInt 320],
      PResults [PStr ''c'', PStr '':'', PInt 3]]"
  by (simp add: untranslatable_tree_def filter_terms.simps is_filter_term_def)

section \<open>Field translation: the claims\<close>

text \<open>
  Claim C6. \<^verbatim>\<open>translate_field\<close> raises \<^verbatim>\<open>ACFieldTranslateException\<close> in each of three cases,
  and the exception says why: when the field is in neither the direct mapping nor the
  registry of methods, its message is "unexpected field"; when the mapped key is absent
  from the result, its message holds the class name \<^verbatim>\<open>KeyError\<close> and the \<^verbatim>\<open>KeyError\<close> of
  the lookup; when the translator method raises \<open>e\<close>, its message holds the class name of
  \<open>e\<close> and \<open>e\<close> itself.
\<close>

theorem translate_field_raises:
  "(direct_fields_mapping a f = None \<and> translate_field_methods_registry a f = None \<longrightarrow>
      translate_field a f r = Inl (Exn ACFieldTranslateException
        [OFmt ''Can't translate field '{0}' (unexpected field)'' [OVal (PStr f)]]))
   \<and> (direct_fields_mapping a f = Some k \<and> r k = None \<longrightarrow>
      translate_field a f r = Inl (Exn ACFieldTranslateException
        [OFmt ''Can't translate field '{0}' ({1}: {2})''
           [OVal (PStr f), OVal (PStr ''KeyError''), OExn (Exn KeyError [OVal (PStr k)])]]))
   \<and> (direct_fields_mapping a f = None \<and> translate_field_methods_registry a f = Some m
        \<and> m r = Inl e \<longrightarrow>
      translate_field a f r = Inl (Exn ACFieldTranslateException
        [OFmt ''Can't translate field '{0}' ({1}: {2})''
           [OVal (PStr f), OVal (PStr (class_name (exn_class e))), OExn e]]))"
  by (simp add: translate_field_def translate_field_try_def)

theorem translate_field_raises_witness:
  "translate_field example_service ''tags'' Map.empty = Inl (Exn ACFieldTranslateException
     [OFmt ''Can't translate field '{0}' (unexpected field)'' [OVal (PStr ''tags'')]])
   \<and> translate_field example_service ''name'' [''id'' \<mapsto> PInt 7] =
       Inl (Exn ACFieldTranslateException
        [OFmt ''Can't translate field '{0}' ({1}: {2})''
           [OVal (PStr ''name''), OVal (PStr ''KeyError''),
            OExn (Exn KeyError [OVal (PStr ''original_filename'')])]])
   \<and> translate_field example_service ''license'' [''id'' \<mapsto> PInt 7] =
       Inl (Exn ACFieldTranslateException
        [OFmt ''Can't translate field '{0}' ({1}: {2})''
           [OVal (PStr ''license''), OVal (PStr ''ValueError''),
            OExn (Exn ValueError [OVal (PStr ''unknown license'')])]])"
  using translate_field_raises [of example_service "''tags''" Map.empty]
    translate_field_raises [of example_service "''name''" "[''id'' \<mapsto> PInt 7]"
      "''original_filename''"]
    translate_field_raises [of example_service "''license''" "[''id'' \<mapsto> PInt 7]" _
      example_translate_license "Exn ValueError [OVal (PStr ''unknown license'')]"]
  by (simp add: example_service_def example_translate_license_def)

text \<open>
  Claim C7. For a field of the direct mapping whose mapped key is in the result,
  \<^verbatim>\<open>translate_field\<close> returns the value stored under that key, unchanged; and the direct
  mapping comes first: whatever the registry of translator methods holds for the field,
  the outcome is the same.
\<close>

theorem translate_field_direct:
  "direct_fields_mapping a f = Some k \<Longrightarrow>
     (r k = Some v \<longrightarrow> translate_field a f r = Inr v)
     \<and> translate_field (a\<lparr>translate_field_methods_registry := reg\<rparr>) f r = translate_field a f r"
  by (simp add: translate_field_def translate_field_try_def)

theorem translate_field_direct_witness:
  "direct_fields_mapping example_service ''name'' = Some ''original_filename''
   \<and> translate_field_methods_registry example_service ''name'' = Some example_translate_shadowed
   \<and> translate_field example_service ''name'' [''original_filename'' \<mapsto> PStr ''audio filename'']
       = Inr (PStr ''audio filename'')"
  using translate_field_direct [of example_service "''name''" "''original_filename''"
      "[''original_filename'' \<mapsto> PStr ''audio filename'']" "PStr ''audio filename''"]
  by (simp add: example_service_def)

text \<open>
  Claim C5. For every raw result and every requested field, a failure of
  \<^verbatim>\<open>translate_field\<close> adds one warning and leaves only that field out of the translated
  result; \<^verbatim>\<open>translate_single_result\<close> always returns, and \<^verbatim>\<open>format_search_response\<close>
  returns whenever the two accessors of the service do, with one translated result per
  raw result. When the requested fields are \<^verbatim>\<open>None\<close>, absent or empty, every translated
  result is the empty dictionary and no warning is added.
\<close>

theorem field_failure_is_a_warning:
  fixes a :: "'r adapter"
  defines "warning \<equiv> \<lambda>f. OFmt ''Can't return unsupported field {0}'' [OVal (PStr f)]"
  defines "translated \<equiv> \<lambda>r fs f.
    if f \<in> set fs \<and> \<not> isl (translate_field a f r)
    then Some (projr (translate_field a f r)) else None"
  defines "warnings_of \<equiv> \<lambda>r fs. map warning (filter (\<lambda>f. isl (translate_field a f r)) fs)"
  shows "translate_single_result a result (Some fs) format w =
           (Inr (translated result fs), w @ warnings_of result fs)
    \<and> translate_single_result a result None format w = (Inr Map.empty, w)
    \<and> translate_single_result a result (Some []) format w = (Inr Map.empty, w)
    \<and> (get_results_list_from_response a response = Inr rs
        \<and> get_num_results_from_response a response = Inr n
       \<longrightarrow> format_search_response a response common_search_params format w =
           (Inr \<lparr>num_results = n,
                 results_list = map (\<lambda>r. translated r
                   (case get_fields common_search_params of None \<Rightarrow> [] | Some fs \<Rightarrow> fs)) rs\<rparr>,
            w @ concat (map (\<lambda>r. warnings_of r
                   (case get_fields common_search_params of None \<Rightarrow> [] | Some fs \<Rightarrow> fs)) rs)))
    \<and> (get_results_list_from_response a response = Inr rs
        \<and> get_num_results_from_response a response = Inr n
        \<and> (get_fields common_search_params = None \<or> get_fields common_search_params = Some [])
       \<longrightarrow> format_search_response a response common_search_params format w =
           (Inr \<lparr>num_results = n, results_list = map (\<lambda>r. Map.empty) rs\<rparr>, w))"
  unfolding warning_def translated_def warnings_of_def
  by (auto simp: translate_single_result_def translate_target_fields_result
      format_search_response_def translate_results_result)

theorem field_failure_is_a_warning_witness:
  "(\<exists>res. format_search_response example_service [example_result]
        [''fields'' \<mapsto> Some [''name'', ''license'', ''id'']] PNone [] =
       (Inr res, [OFmt ''Can't return unsupported field {0}'' [OVal (PStr ''license'')]])
     \<and> num_results res = PInt 1
     \<and> length (results_list res) = 1
     \<and> (results_list res ! 0) ''name'' = Some (PStr ''bell.wav'')
     \<and> (results_list res ! 0) ''license'' = None
     \<and> (results_list res ! 0) ''id'' = Some (PInt 7))
   \<and> format_search_response example_service [example_result] Map.empty PNone [] =
       (Inr \<lparr>num_results = PInt 1, results_list = [Map.empty]\<rparr>, [])"
proof -
  have t: "translate_field example_service ''name'' example_result = Inr (PStr ''bell.wav'')"
    "translate_field example_service ''license'' example_result = Inl (Exn ACFieldTranslateException
      [OFmt ''Can't translate field '{0}' ({1}: {2})''
         [OVal (PStr ''license''), OVal (PStr ''ValueError''),
          OExn (Exn ValueError [OVal (PStr ''unknown license'')])]])"
    "translate_field example_service ''id'' example_result = Inr (PInt 7)"
    by (simp_all add: translate_field_def translate_field_try_def example_service_def
        example_result_def example_translate_license_def example_translate_id_def)
  have acc: "get_results_list_from_response example_service [example_result] = Inr [example_result]"
    "get_num_results_from_response example_service [example_result] = Inr (PInt 1)"
    by (simp_all add: example_service_def)
  show ?thesis
    using field_failure_is_a_warning [of example_service example_result "[]" PNone "[]"
        "[example_result]" "[example_result]" "PInt 1"
        "[''fields'' \<mapsto> Some [''name'', ''license'', ''id'']]"]
      field_failure_is_a_warning [of example_service example_result "[]" PNone "[]"
        "[example_result]" "[example_result]" "PInt 1" Map.empty]
    by (simp add: t acc get_fields_def)
qed

section \<open>Filter translation: the claims\<close>

text \<open>
  Claim C3, as stated: a filter that cannot be translated fails with an error kind of
  its own, apart from the one for a filter string that does not parse. It does not: an
  unknown filter field, a translator method that raises, and a string the parser
  rejects all end in \<^verbatim>\<open>ACFilterParsingException\<close>.
\<close>

theorem translate_filter_kind_counterexample:
  "translate_filter example_service (PStr ''bitrate'') (PInt 320) =
     Inl (Exn ACFilterParsingException
       [OFmt ''Filter for field '{0}' not supported'' [OVal (PStr ''bitrate'')]])
   \<and> translate_filter example_service (PStr ''size'') (PStr ''big'') =
     Inl (Exn ACFilterParsingException
       [OFmt ''Unexpected error processing filter for field '{0}' ({1}: {2})''
          [OVal (PStr ''size''), OVal (PStr ''ValueError''),
           OExn (Exn ValueError [OVal (PStr ''size is not a number'')])]])
   \<and> build_filter_string example_service rejecting_parse_filter ''a:1 AND'' =
     Inl (Exn ACFilterParsingException
       [OFmt ''Could not parse filter: \"{0}\"'' [OVal (PStr ''a:1 AND'')]])"
  by (simp add: translate_filter_def translate_filter_try_def example_service_def
      example_filter_size_def build_filter_string_def rejecting_parse_filter_def)

text \<open>
  Claim C3, amended. When the field is in neither the direct filters mapping nor the
  registry of filter methods, and when the registered method raises, \<^verbatim>\<open>translate_filter\<close>
  fails with \<^verbatim>\<open>ACFilterParsingException\<close>, the class that \<^verbatim>\<open>build_filter_string\<close> raises for
  a string the parser rejects. The failure is fatal for the request:
  \<^verbatim>\<open>process_filter_element\<close> raises the error of \<^verbatim>\<open>translate_filter\<close> for the filter term
  (for a range, the error of the low bound, or that of the high bound once the low bound
  is translated and unpacked), and for every filter whose parse tree holds a term that
  fails, \<^verbatim>\<open>process_filter_element\<close> raises on the root and \<^verbatim>\<open>build_filter_string\<close> raises the
  same error and returns no filter string.
\<close>

theorem translate_filter_raises_parsing_exception:
  "(dict_get (direct_filters_mapping a) f = None \<and>
      (dict_get (translate_filter_methods_registry a) f = None
       \<or> (\<exists>m e. dict_get (translate_filter_methods_registry a) f = Some m \<and> m v = Inl e))
     \<longrightarrow> (\<exists>e. translate_filter a f v = Inl e \<and> exn_class e = ACFilterParsingException))
   \<and> (\<forall>e. parse_filter s = Inl e \<and> exn_class e = ParseException
     \<longrightarrow> (\<exists>e'. build_filter_string a parse_filter s = Inl e'
            \<and> exn_class e' = ACFilterParsingException))
   \<and> (is_filter_term t = Inr True \<and> py_getitem t 0 = Inr fkey \<and> py_getitem t 2 = Inr fvalue
       \<and> (\<forall>low high. fvalue \<noteq> PResults [low, high])
       \<and> translate_filter a fkey fvalue = Inl e
     \<longrightarrow> process_filter_element a t fl = Inl e \<and> exn_class e = ACFilterParsingException)
   \<and> (is_filter_term t = Inr True \<and> py_getitem t 0 = Inr fkey
       \<and> py_getitem t 2 = Inr (PResults [low, high])
       \<and> (translate_filter a fkey low = Inl e
            \<or> (\<exists>r k1 v1. translate_filter a fkey low = Inr r \<and> unpack2 r = Inr (k1, v1)
                  \<and> translate_filter a fkey high = Inl e))
     \<longrightarrow> process_filter_element a t fl = Inl e \<and> exn_class e = ACFilterParsingException)
   \<and> (parse_filter s = Inr parsed_filter \<and> py_getitem parsed_filter 0 = Inr root
       \<and> t \<in> set (filter_terms root) \<and> process_filter_element a t [] = Inl e
     \<longrightarrow> (\<exists>e'. process_filter_element a root [] = Inl e'
            \<and> build_filter_string a parse_filter s = Inl e'))"
proof (intro conjI impI allI)
  assume "dict_get (direct_filters_mapping a) f = None \<and>
      (dict_get (translate_filter_methods_registry a) f = None
       \<or> (\<exists>m e. dict_get (translate_filter_methods_registry a) f = Some m \<and> m v = Inl e))"
  then show "\<exists>e. translate_filter a f v = Inl e \<and> exn_class e = ACFilterParsingException"
    by (auto simp: translate_filter_def translate_filter_try_def)
next
  fix e assume "parse_filter s = Inl e \<and> exn_class e = ParseException"
  then show "\<exists>e'. build_filter_string a parse_filter s = Inl e'
      \<and> exn_class e' = ACFilterParsingException"
    by (simp add: build_filter_string_def)
next
  assume h: "is_filter_term t = Inr True \<and> py_getitem t 0 = Inr fkey \<and> py_getitem t 2 = Inr fvalue
       \<and> (\<forall>low high. fvalue \<noteq> PResults [low, high])
       \<and> translate_filter a fkey fvalue = Inl e"
  then have "translate_term_value a fkey fvalue = Inl e"
    by (auto simp: translate_term_value_def split: pyval.splits list.splits)
  with h show "process_filter_element a t fl = Inl e"
    by (simp add: process_filter_term_translation_fails)
  from h show "exn_class e = ACFilterParsingException"
    by (blast dest: translate_filter_class)
next
  assume h: "is_filter_term t = Inr True \<and> py_getitem t 0 = Inr fkey
       \<and> py_getitem t 2 = Inr (PResults [low, high])
       \<and> (translate_filter a fkey low = Inl e
            \<or> (\<exists>r k1 v1. translate_filter a fkey low = Inr r \<and> unpack2 r = Inr (k1, v1)
                  \<and> translate_filter a fkey high = Inl e))"
  then have "translate_term_value a fkey (PResults [low, high]) = Inl e"
    by (auto simp: translate_term_value_def)
  with h show "process_filter_element a t fl = Inl e"
    by (simp add: process_filter_term_translation_fails)
  from h show "exn_class e = ACFilterParsingException"
    by (blast dest: translate_filter_class)
next
  assume h: "parse_filter s = Inr parsed_filter \<and> py_getitem parsed_filter 0 = Inr root
       \<and> t \<in> set (filter_terms root) \<and> process_filter_element a t [] = Inl e"
  then have "isl (process_filter_element a root [])"
    using failing_term_fails_element [of t root a "[]"] by simp
  then obtain e' where "process_filter_element a root [] = Inl e'"
    by (cases "process_filter_element a root []") auto
  with h show "\<exists>e'. process_filter_element a root [] = Inl e'
      \<and> build_filter_string a parse_filter s = Inl e'"
    by (simp add: build_filter_string_propagates)
qed

theorem translate_filter_raises_parsing_exception_witness:
  "(\<exists>e. translate_filter example_service (PStr ''bitrate'') (PInt 320) = Inl e
        \<and> exn_class e = ACFilterParsingException)
   \<and> (\<exists>e. translate_filter example_service (PStr ''size'') (PStr ''big'') = Inl e
        \<and> exn_class e = ACFilterParsingException)
   \<and> (\<exists>e'. build_filter_string example_service rejecting_parse_filter ''a:1 AND'' = Inl e'
        \<and> exn_class e' = ACFilterParsingException)
   \<and> process_filter_element example_service
        (PResults [PStr ''bitrate'', PStr '':'', PInt 320]) [PStr ''a=1''] =
      Inl (Exn ACFilterParsingException
        [OFmt ''Filter for field '{0}' not supported'' [OVal (PStr ''bitrate'')]])
   \<and> process_filter_element example_service
        (PResults [PStr ''size'', PStr '':'', PResults [PInt 1, PInt 5]]) [] =
      Inl (Exn ACFilterParsingException
        [OFmt ''Unexpected error processing filter for field '{0}' ({1}: {2})''
           [OVal (PStr ''size''), OVal (PStr ''ValueError''),
            OExn (Exn ValueError [OVal (PStr ''size is not a number'')])]])
   \<and> (\<exists>e'. process_filter_element example_service untranslatable_tree [] = Inl e'
        \<and> build_filter_string example_service untranslatable_parse_filter
             ''(a:1 OR bitrate:320) AND c:3'' = Inl e')"
proof -
  let ?tb = "PResults [PStr ''bitrate'', PStr '':'', PInt 320]"
  let ?ts = "PResults [PStr ''size'', PStr '':'', PResults [PInt 1, PInt 5]]"
  let ?eb = "Exn ACFilterParsingException
        [OFmt ''Filter for field '{0}' not supported'' [OVal (PStr ''bitrate'')]]"
  let ?es = "Exn ACFilterParsingException
        [OFmt ''Unexpected error processing filter for field '{0}' ({1}: {2})''
           [OVal (PStr ''size''), OVal (PStr ''ValueError''),
            OExn (Exn ValueError [OVal (PStr ''size is not a number'')])]]"
  have tf: "translate_filter example_service (PStr ''bitrate'') (PInt 320) = Inl ?eb"
    "translate_filter example_service (PStr ''size'') (PInt 1) = Inl ?es"
    by (simp_all add: translate_filter_def translate_filter_try_def example_service_def
        example_filter_size_def)
  have dg: "dict_get (direct_filters_mapping example_service) (PStr ''bitrate'') = None"
    "dict_get (translate_filter_methods_registry example_service) (PStr ''bitrate'') = None"
    "dict_get (direct_filters_mapping example_service) (PStr ''size'') = None"
    "dict_get (translate_filter_methods_registry example_service) (PStr ''size'')
       = Some example_filter_size"
    "example_filter_size (PStr ''big'') = Inl (Exn ValueError [OVal (PStr ''size is not a number'')])"
    by (simp_all add: example_service_def example_filter_size_def)
  note a1 = translate_filter_raises_parsing_exception
      [of example_service "PStr ''bitrate''" "PInt 320" rejecting_parse_filter "''a:1 AND''"
        ?tb "PStr ''bitrate''" "PInt 320" ?eb "[PStr ''a=1'']"]
  note a2 = translate_filter_raises_parsing_exception
      [of example_service "PStr ''size''" "PStr ''big''" untranslatable_parse_filter
        "''(a:1 OR bitrate:320) AND c:3''" ?tb "PStr ''bitrate''" "PInt 320" ?eb "[]"
        _ _ "PResults [untranslatable_tree]" untranslatable_tree]
  note a3 = translate_filter_raises_parsing_exception
      [of example_service "PStr ''size''" "PStr ''big''" rejecting_parse_filter "''a:1 AND''"
        ?ts "PStr ''size''" _ ?es "[]" "PInt 1" "PInt 5"]
  have c1: "\<exists>e. translate_filter example_service (PStr ''bitrate'') (PInt 320) = Inl e
        \<and> exn_class e = ACFilterParsingException"
    using a1 dg by simp
  have c2: "\<exists>e. translate_filter example_service (PStr ''size'') (PStr ''big'') = Inl e
        \<and> exn_class e = ACFilterParsingException"
    using a2 dg by simp
  have c3: "\<exists>e'. build_filter_string example_service rejecting_parse_filter ''a:1 AND'' = Inl e'
        \<and> exn_class e' = ACFilterParsingException"
    using a1 by (simp add: rejecting_parse_filter_def)
  have c4: "process_filter_element example_service ?tb [PStr ''a=1''] = Inl ?eb"
    using a1 tf by (simp add: is_filter_term_def)
  have c5: "process_filter_element example_service ?ts [] = Inl ?es"
    using a3 tf by (simp add: is_filter_term_def)
  have c6: "\<exists>e'. process_filter_element example_service untranslatable_tree [] = Inl e'
        \<and> build_filter_string example_service untranslatable_parse_filter
             ''(a:1 OR bitrate:320) AND c:3'' = Inl e'"
    using a2 untranslatable_term
    by (simp add: untranslatable_parse_filter_def untranslatable_tree_terms)
  from c1 c2 c3 c4 c5 c6 show ?thesis by simp
qed

text \<open>
  Claim C10. When the registered filter method itself raises a \<^verbatim>\<open>KeyError\<close>,
  \<^verbatim>\<open>translate_filter\<close> raises the "Filter for field ... not supported" error, the very
  error of a service that has no entry for the field.
\<close>

theorem translate_filter_key_error:
  assumes "dict_get (direct_filters_mapping a) f = None"
    and "dict_get (translate_filter_methods_registry a) f = Some m"
    and "m v = Inl e" and "exn_class e = KeyError"
    and "dict_get (direct_filters_mapping a') f = None"
    and "dict_get (translate_filter_methods_registry a') f = None"
  shows "translate_filter a f v = Inl (Exn ACFilterParsingException
           [OFmt ''Filter for field '{0}' not supported'' [OVal f]])
         \<and> translate_filter a f v = translate_filter a' f v"
  using assms by (simp add: translate_filter_def translate_filter_try_def)

theorem translate_filter_key_error_witness:
  "translate_filter example_service (PStr ''tag'') (PStr ''rock'') =
     Inl (Exn ACFilterParsingException
       [OFmt ''Filter for field '{0}' not supported'' [OVal (PStr ''tag'')]])
   \<and> translate_filter example_service (PStr ''tag'') (PStr ''rock'') =
     translate_filter (example_service\<lparr>translate_filter_methods_registry := Map.empty\<rparr>)
       (PStr ''tag'') (PStr ''rock'')"
  using translate_filter_key_error [of example_service "PStr ''tag''" example_filter_tag
      "PStr ''rock''" "Exn KeyError [OVal (PStr ''rock'')]"
      "example_service\<lparr>translate_filter_methods_registry := Map.empty\<rparr>"]
  by (simp add: example_service_def example_filter_tag_def translate_filter_def
      translate_filter_try_def)

section \<open>Rendering a filter: the claims\<close>

text \<open>
  Claim C9. The mixin's own \<^verbatim>\<open>render_filter_term\<close> and \<^verbatim>\<open>render_operator_term\<close> return
  \<^verbatim>\<open>None\<close> on every call and raise nothing; with a service that does not override them,
  \<^verbatim>\<open>process_filter_element\<close> appends \<^verbatim>\<open>None\<close> to the filter list for a filter term whose
  translation succeeds and for an operator.
\<close>

theorem base_render_methods_return_none:
  "base_render_filter_term kw = Inr PNone
   \<and> base_render_operator_term operator = Inr PNone
   \<and> (render_filter_term a = base_render_filter_term \<and> is_filter_term elm = Inr True
       \<and> py_getitem elm 0 = Inr fkey \<and> py_getitem elm 2 = Inr fvalue
       \<and> translate_term_value a fkey fvalue = Inr (k, v)
      \<longrightarrow> process_filter_element a elm filter_list = Inr (filter_list @ [PNone]))
   \<and> (render_operator_term a = base_render_operator_term \<and> is_operator (PStr s)
      \<longrightarrow> process_filter_element a (PStr s) filter_list = Inr (filter_list @ [PNone]))"
  by (auto simp: base_render_filter_term_def base_render_operator_term_def
      process_filter_element.simps process_filter_term_def is_operator_not_term)

theorem base_render_methods_return_none_witness:
  "process_filter_element unrendered_service (PResults [PStr ''a'', PStr '':'', PInt 1]) []
     = Inr [PNone]
   \<and> process_filter_element unrendered_service (PStr ''and'') [PNone] = Inr [PNone, PNone]"
  using base_render_methods_return_none [of _ _ unrendered_service
      "PResults [PStr ''a'', PStr '':'', PInt 1]" "PStr ''a''" "PInt 1" "PStr ''a''" "PInt 1" "[]"
      "''and''"]
    base_render_methods_return_none [of _ _ unrendered_service
      "PResults [PStr ''a'', PStr '':'', PInt 1]" "PStr ''a''" "PInt 1" "PStr ''a''" "PInt 1"
      "[PNone]" "''and''"]
  by (simp add: unrendered_service_def example_service_def is_filter_term_def
      translate_term_value_def translate_filter_def translate_filter_try_def is_operator_def)

text \<open>
  Claim C1, as stated: when the translations of the two bounds of a range give
  different provider keys, the operation raises. It does not: the filter \<open>date:[1,5]\<close>
  of the example service translates its bounds to the keys \<open>created_after\<close> and
  \<open>created_before\<close>, and the term is rendered under the first.
\<close>

theorem range_key_mismatch_counterexample:
  "translate_filter example_service (PStr ''date'') (PInt 1) =
     Inr (PTuple [PStr ''created_after'', PInt 1])
   \<and> translate_filter example_service (PStr ''date'') (PInt 5) =
     Inr (PTuple [PStr ''created_before'', PInt 5])
   \<and> process_filter_element example_service
       (PResults [PStr ''date'', PStr '':'', PResults [PInt 1, PInt 5]]) [] =
     Inr [PStr ''created_after=[1 TO 5]'']"
  by (simp add: process_filter_element.simps process_filter_term_def is_filter_term_def
      translate_term_value_def translate_filter_def translate_filter_try_def
      example_service_def example_filter_date_def example_render_filter_term_def str_int_def)

text \<open>
  Claim C1, amended. For a filter term whose value is a range, the low bound is
  translated, then the high bound, each by its own call of \<^verbatim>\<open>translate_filter\<close>; a failure
  of either call or of unpacking its result is the failure of the operation; otherwise
  the term is rendered with the key of the low bound's translation and the pair of the
  two translated values as \<^verbatim>\<open>value_range\<close>. The key of the high bound's translation is
  dropped and is not compared with the first.
\<close>

theorem range_bounds_translated_separately:
  assumes "is_filter_term elm = Inr True"
    and "py_getitem elm 0 = Inr fkey"
    and "py_getitem elm 2 = Inr (PResults [low, high])"
  shows "process_filter_element a elm filter_list =
    (case translate_filter a fkey low of
       Inl e \<Rightarrow> Inl e
     | Inr r1 \<Rightarrow>
        (case unpack2 r1 of
           Inl e \<Rightarrow> Inl e
         | Inr (key1, value1) \<Rightarrow>
            (case translate_filter a fkey high of
               Inl e \<Rightarrow> Inl e
             | Inr r2 \<Rightarrow>
                (case unpack2 r2 of
                   Inl e \<Rightarrow> Inl e
                 | Inr (key2, value2) \<Rightarrow>
                    (case render_filter_term a
                       \<lparr>key = key1, value_text = None, value_number = None,
                        value_range = Some (value1, value2)\<rparr> of
                       Inl e \<Rightarrow> Inl e
                     | Inr t \<Rightarrow> Inr (filter_list @ [t]))))))"
  using assms
  by (simp add: process_filter_element.simps process_filter_term_def translate_term_value_def
      split: sum.splits prod.splits)

theorem range_bounds_translated_separately_witness:
  "process_filter_element example_service
       (PResults [PStr ''duration'', PStr '':'', PResults [PInt 10, PInt 40]]) [] =
     Inr [PStr ''dur=[10 TO 40]'']"
  using range_bounds_translated_separately [of
      "PResults [PStr ''duration'', PStr '':'', PResults [PInt 10, PInt 40]]"
      "PStr ''duration''" "PInt 10" "PInt 40" example_service "[]"]
  by (simp add: is_filter_term_def translate_filter_def translate_filter_try_def
      example_service_def example_filter_duration_def example_render_filter_term_def str_int_def)

text \<open>
  Claim C4. A group that is no filter term emits an opening parenthesis, then the
  tokens of its items from left to right, then a closing parenthesis; a group whose
  first item is the operator \<^verbatim>\<open>NOT\<close> emits the tokens of its items only. The witness is
  the parse of \<open>(a:1 OR b:2) AND NOT c:3\<close>: the parentheses of the \<open>OR\<close> group are kept
  and the operand of \<open>NOT\<close> gets none.
\<close>

theorem group_parentheses:
  assumes "is_filter_term (PResults items) = Inr False"
    and "list_all2 (\<lambda>item ts. process_filter_element a item [] = Inr ts) items tss"
  shows "process_filter_element a (PResults items) filter_list =
     Inr (filter_list @
       (if is_not_structure (PResults items) then concat tss
        else [PStr ''(''] @ concat tss @ [PStr '')'']))"
  using assms(1) process_filter_items_concat [OF assms(2)]
  by (simp add: process_filter_element.simps)

theorem group_parentheses_witness:
  "process_filter_element example_service
     (PResults [PResults [PStr ''a'', PStr '':'', PInt 1], PStr ''OR'',
                PResults [PStr ''b'', PStr '':'', PInt 2]]) []
     = Inr [PStr ''('', PStr ''a=1'', PStr '' OR '', PStr ''b=2'', PStr '')'']
   \<and> process_filter_element example_service
     (PResults [PStr ''NOT'', PResults [PStr ''c'', PStr '':'', PInt 3]]) []
     = Inr [PStr '' NOT '', PStr ''c=3'']
   \<and> process_filter_element example_service example_tree []
     = Inr [PStr ''('', PStr ''('', PStr ''a=1'', PStr '' OR '', PStr ''b=2'', PStr '')'',
            PStr '' AND '', PStr '' NOT '', PStr ''c=3'', PStr '')'']
   \<and> build_filter_string example_service example_parse_filter ''(a:1 OR b:2) AND NOT c:3''
     = Inr ''(a=1 OR b=2) AND  NOT c=3''"
proof -
  let ?ta = "PResults [PStr ''a'', PStr '':'', PInt 1]"
  let ?tb = "PResults [PStr ''b'', PStr '':'', PInt 2]"
  let ?tc = "PResults [PStr ''c'', PStr '':'', PInt 3]"
  have g1: "process_filter_element example_service (PResults [?ta, PStr ''OR'', ?tb]) []
     = Inr [PStr ''('', PStr ''a=1'', PStr '' OR '', PStr ''b=2'', PStr '')'']"
    using group_parentheses [of "[?ta, PStr ''OR'', ?tb]" example_service
        "[[PStr ''a=1''], [PStr '' OR ''], [PStr ''b=2'']]" "[]"]
    by (simp add: example_terms example_operators is_filter_term_def is_not_structure_def)
  have g2: "process_filter_element example_service (PResults [PStr ''NOT'', ?tc]) []
     = Inr [PStr '' NOT '', PStr ''c=3'']"
    using group_parentheses [of "[PStr ''NOT'', ?tc]" example_service
        "[[PStr '' NOT ''], [PStr ''c=3'']]" "[]"]
    by (simp add: example_terms example_operators is_filter_term_def is_not_structure_def)
  have g3: "process_filter_element example_service example_tree []
     = Inr [PStr ''('', PStr ''('', PStr ''a=1'', PStr '' OR '', PStr ''b=2'', PStr '')'',
            PStr '' AND '', PStr '' NOT '', PStr ''c=3'', PStr '')'']"
    unfolding example_tree_def
    using group_parentheses [of "[PResults [?ta, PStr ''OR'', ?tb], PStr ''AND'',
          PResults [PStr ''NOT'', ?tc]]" example_service
        "[[PStr ''('', PStr ''a=1'', PStr '' OR '', PStr ''b=2'', PStr '')''],
          [PStr '' AND ''], [PStr '' NOT '', PStr ''c=3'']]" "[]"]
    by (simp add: g1 g2 example_operators is_filter_term_def is_not_structure_def)
  have g4: "build_filter_string example_service example_parse_filter ''(a:1 OR b:2) AND NOT c:3''
     = Inr ''(a=1 OR b=2) AND  NOT c=3''"
    by (simp add: build_filter_string_def example_parse_filter_def g3)
  from g1 g2 g3 g4 show ?thesis by simp
qed

text \<open>
  What \<^verbatim>\<open>build_filter_string\<close> strips. When the root is a group that emits its own
  parentheses, exactly that pair goes: the string is the join of the tokens of the items
  of the root. A root whose first item is \<^verbatim>\<open>NOT\<close> loses no token when the service does
  not render \<^verbatim>\<open>NOT\<close> as the bare token \<open>(\<close>, and a root group that holds one filter term
  gives the string of the term alone when the service does not render the term as the
  bare token \<open>(\<close>.
\<close>

lemma outermost_parentheses_stripped:
  "(parse_filter s = Inr parsed_filter \<and> py_getitem parsed_filter 0 = Inr (PResults items)
      \<and> is_filter_term (PResults items) = Inr False \<and> \<not> is_not_structure (PResults items)
      \<and> process_filter_items a items [] = Inr ts
     \<longrightarrow> process_filter_element a (PResults items) [] = Inr ([PStr ''(''] @ ts @ [PStr '')''])
         \<and> build_filter_string a parse_filter s = py_join 0 ts)
   \<and> (parse_filter s0 = Inr parsed_filter0 \<and> py_getitem parsed_filter0 0 = Inr root
      \<and> is_filter_term root = Inr False \<and> is_not_structure root
      \<and> process_filter_element a root [] = Inr out
      \<and> render_operator_term a ''NOT'' \<noteq> Inr (PStr ''('')
     \<longrightarrow> build_filter_string a parse_filter s0 = py_join 0 out)
   \<and> (parse_filter s1 = Inr (PResults [PResults [t]]) \<and> parse_filter s2 = Inr (PResults [t])
      \<and> t = PResults [fkey, PStr '':'', fvalue]
      \<and> process_filter_element a t [] \<noteq> Inr [PStr ''('']
     \<longrightarrow> build_filter_string a parse_filter s1 = build_filter_string a parse_filter s2)"
proof (intro conjI impI)
  assume h: "parse_filter s = Inr parsed_filter \<and> py_getitem parsed_filter 0 = Inr (PResults items)
      \<and> is_filter_term (PResults items) = Inr False \<and> \<not> is_not_structure (PResults items)
      \<and> process_filter_items a items [] = Inr ts"
  then have g: "process_filter_element a (PResults items) [] = Inr ([PStr ''(''] @ ts @ [PStr '')''])"
    by (simp add: root_group_tokens)
  then show "process_filter_element a (PResults items) [] = Inr ([PStr ''(''] @ ts @ [PStr '')''])" .
  from h g show "build_filter_string a parse_filter s = py_join 0 ts"
    by (simp add: build_filter_string_def)
next
  assume h: "parse_filter s0 = Inr parsed_filter0 \<and> py_getitem parsed_filter0 0 = Inr root
      \<and> is_filter_term root = Inr False \<and> is_not_structure root
      \<and> process_filter_element a root [] = Inr out
      \<and> render_operator_term a ''NOT'' \<noteq> Inr (PStr ''('')"
  then obtain r rest where "render_operator_term a ''NOT'' = Inr r" and "out = r # rest"
    using not_structure_first_token [of root a out] by auto
  with h show "build_filter_string a parse_filter s0 = py_join 0 out"
    by (auto simp: build_filter_string_def)
next
  assume h: "parse_filter s1 = Inr (PResults [PResults [t]]) \<and> parse_filter s2 = Inr (PResults [t])
      \<and> t = PResults [fkey, PStr '':'', fvalue]
      \<and> process_filter_element a t [] \<noteq> Inr [PStr ''('']"
  then have tm: "is_filter_term t = Inr True" by (simp add: is_filter_term_def)
  then have el: "process_filter_element a t [] = process_filter_term a t []"
    by (simp add: process_filter_element.simps)
  have grp: "is_filter_term (PResults [t]) = Inr False" "\<not> is_not_structure (PResults [t])"
    using h by (simp_all add: is_filter_term_def is_not_structure_def)
  show "build_filter_string a parse_filter s1 = build_filter_string a parse_filter s2"
  proof (cases "process_filter_element a t []")
    case (Inl e)
    then show ?thesis using h root_group_tokens [OF grp, of a]
      by (simp add: build_filter_string_def)
  next
    case (Inr ts)
    with el obtain r where ts: "ts = [r]" using process_filter_term_single by metis
    with Inr h have "r \<noteq> PStr ''(''" by auto
    with Inr ts h show ?thesis using root_group_tokens [OF grp, of a]
      by (simp add: build_filter_string_def)
  qed
qed

lemma outermost_parentheses_stripped_examples:
  "build_filter_string example_service example_parse_filter ''(a:1 OR b:2) AND NOT c:3''
     = Inr ''(a=1 OR b=2) AND  NOT c=3''
   \<and> build_filter_string example_service example_parse_filter ''NOT (a:1 OR b:2)''
     = Inr '' NOT (a=1 OR b=2)''
   \<and> build_filter_string example_service example_parse_filter ''(a:1)'' = Inr ''a=1''
   \<and> build_filter_string example_service example_parse_filter ''a:1'' = Inr ''a=1''"
proof -
  let ?ta = "PResults [PStr ''a'', PStr '':'', PInt 1]"
  let ?tb = "PResults [PStr ''b'', PStr '':'', PInt 2]"
  let ?tc = "PResults [PStr ''c'', PStr '':'', PInt 3]"
  let ?items = "[PResults [?ta, PStr ''OR'', ?tb], PStr ''AND'', PResults [PStr ''NOT'', ?tc]]"
  have g1: "build_filter_string example_service example_parse_filter ''(a:1 OR b:2) AND NOT c:3''
     = Inr ''(a=1 OR b=2) AND  NOT c=3''"
    using outermost_parentheses_stripped [of example_parse_filter "''(a:1 OR b:2) AND NOT c:3''"
        "PResults [example_tree]" ?items example_service
        "[PStr ''('', PStr ''a=1'', PStr '' OR '', PStr ''b=2'', PStr '')'',
             PStr '' AND '', PStr '' NOT '', PStr ''c=3'']"]
    by (simp add: example_or_group example_not_group example_operators example_parse_filter_def
        example_tree_def is_filter_term_def is_not_structure_def)
  have no_paren: "render_operator_term example_service ''NOT'' \<noteq> Inr (PStr ''('')"
    by (simp add: example_service_def example_render_operator_term_def)
  have g0: "build_filter_string example_service example_parse_filter ''NOT (a:1 OR b:2)''
     = Inr '' NOT (a=1 OR b=2)''"
    using outermost_parentheses_stripped [of example_parse_filter _ _ _ example_service _
        "''NOT (a:1 OR b:2)''" "PResults [not_tree]" not_tree
        "[PStr '' NOT '', PStr ''('', PStr ''a=1'', PStr '' OR '', PStr ''b=2'', PStr '')'']"]
      no_paren
    by (simp add: example_not_tree example_parse_filter_def)
      (simp add: not_tree_def is_filter_term_def is_not_structure_def)
  have g3: "build_filter_string example_service example_parse_filter ''a:1'' = Inr ''a=1''"
    by (simp add: build_filter_string_def example_parse_filter_def example_terms)
  have g2: "build_filter_string example_service example_parse_filter ''(a:1)'' = Inr ''a=1''"
    using outermost_parentheses_stripped [of example_parse_filter _ _ _ example_service _
        _ _ _ _ "''(a:1)''" ?ta "''a:1''" "PStr ''a''" "PInt 1"]
    by (simp add: g3 example_parse_filter_def example_terms)
  from g1 g0 g2 g3 show ?thesis by simp
qed

text \<open>
  Claim C2: the pair that \<^verbatim>\<open>build_filter_string\<close> strips is the pair of parentheses of
  the root group, never tokens of another origin, and \<open>(a:1)\<close> renders as \<open>a:1\<close> does.
  The code tests the first token only (\<^verbatim>\<open>out_filter_list[0] == '('\<close>), while its comment
  says that the first and the last token "will correspond to redundant parentheses".
  With a service that renders \<^verbatim>\<open>NOT\<close> as \<open>(\<close>, the filter \<open>NOT (a:1 OR b:2)\<close> loses the
  token of \<^verbatim>\<open>NOT\<close> and the closing parenthesis of the inner group; with a service that
  renders a term as \<open>(\<close>, \<open>(a:1)\<close> gives \<open>(\<close> and \<open>a:1\<close> gives the empty string.
\<close>

theorem first_token_test_drops_foreign_tokens:
  "process_filter_element paren_not_service not_tree []
     = Inr [PStr ''('', PStr ''('', PStr ''a=1'', PStr '' OR '', PStr ''b=2'', PStr '')'']
   \<and> build_filter_string paren_not_service example_parse_filter ''NOT (a:1 OR b:2)''
     = Inr ''(a=1 OR b=2''
   \<and> build_filter_string paren_term_service example_parse_filter ''(a:1)'' = Inr ''(''
   \<and> build_filter_string paren_term_service example_parse_filter ''a:1'' = Inr []"
proof -
  have t1: "build_filter_string paren_not_service example_parse_filter ''NOT (a:1 OR b:2)''
     = Inr ''(a=1 OR b=2''"
    by (simp add: build_filter_string_def example_parse_filter_def paren_not_tokens)
  have tm: "\<And>fl. process_filter_element paren_term_service
      (PResults [PStr ''a'', PStr '':'', PInt 1]) fl = Inr (fl @ [PStr ''(''])"
    by (simp add: process_filter_element.simps process_filter_term_def is_filter_term_def
        translate_term_value_def translate_filter_def translate_filter_try_def
        paren_term_service_def paren_render_filter_term_def example_service_def)
  have grp: "process_filter_element paren_term_service
      (PResults [PResults [PStr ''a'', PStr '':'', PInt 1]]) []
      = Inr [PStr ''('', PStr ''('', PStr '')'']"
    using process_filter_group [of "[PResults [PStr ''a'', PStr '':'', PInt 1]]"
        paren_term_service "[]"]
    by (simp add: tm is_filter_term_def is_not_structure_def)
  have t2: "build_filter_string paren_term_service example_parse_filter ''(a:1)'' = Inr ''(''"
    by (simp add: build_filter_string_def example_parse_filter_def grp)
  have t3: "build_filter_string paren_term_service example_parse_filter ''a:1'' = Inr []"
    by (simp add: build_filter_string_def example_parse_filter_def tm)
  from paren_not_tokens t1 t2 t3 show ?thesis by simp
qed

section \<open>Sorting criteria: the claim\<close>

text \<open>
  Claim C8. \<^verbatim>\<open>get_supported_sorting_criteria\<close> probes every sort option, descending
  first and then ascending, with \<^verbatim>\<open>raise_exception_if_unsupported\<close> set. When every probe
  either returns or raises an \<^verbatim>\<open>ACException\<close>, the result lists, option by option, the
  option with the prefix \<open>-\<close> if its descending probe returned and the option itself if
  its ascending probe returned. When a probe raises \<^verbatim>\<open>NotImplementedError\<close>, all the
  probes before it having returned or raised an \<^verbatim>\<open>ACException\<close>, the result is the empty
  list, whatever was collected.
\<close>

theorem supported_sorting_criteria:
  "((\<forall>option \<in> set sort_options. \<forall>desc.
        probe_returns a option desc \<or> probe_unsupported a option desc)
     \<longrightarrow> get_supported_sorting_criteria a sort_options =
         Inr (concat (map (\<lambda>option.
           (if probe_returns a option True then [''-'' @ option] else []) @
           (if probe_returns a option False then [option] else [])) sort_options)))
   \<and> (sort_options = before @ option # rest
       \<and> (\<forall>option \<in> set before. \<forall>desc.
            probe_returns a option desc \<or> probe_unsupported a option desc)
       \<and> (probe_not_implemented a option True \<or>
            ((probe_returns a option True \<or> probe_unsupported a option True)
              \<and> probe_not_implemented a option False))
     \<longrightarrow> get_supported_sorting_criteria a sort_options = Inr [])"
  using sorting_criteria_loop_benign [of sort_options a "[]"]
    sorting_criteria_loop_not_implemented [of before a option rest "[]"]
  by (simp add: get_supported_sorting_criteria_def)

theorem supported_sorting_criteria_witness:
  "get_supported_sorting_criteria example_service [''relevance'', ''downloads'', ''duration'']
     = Inr [''-relevance'', ''relevance'', ''-downloads'']
   \<and> get_supported_sorting_criteria half_sorted_service
       [''relevance'', ''popularity'', ''downloads''] = Inr []"
  using supported_sorting_criteria [of "[''relevance'', ''downloads'', ''duration'']"
      example_service "[]" "''relevance''" "[''downloads'', ''duration'']"]
    supported_sorting_criteria [of "[''relevance'', ''popularity'', ''downloads'']"
      half_sorted_service "[''relevance'']" "''popularity''" "[''downloads'']"]
  by (simp add: example_probes half_sorted_probes all_bool_eq)

end
